theory Spec2Isabelle
  imports Complex_Main "HOL-Library.AList"
begin

section \<open>Python values: errors, strings, numbers\<close>

text \<open>
  The scraping functions of \<^verbatim>\<open>finanzen_fundamentals/stocks.py\<close> are embedded as HOL
  functions. A Python \<^verbatim>\<open>str\<close> is a \<^typ>\<open>string\<close>; a character of the model is a code
  point below 256 (ASCII and the Latin-1 supplement, which holds the umlauts of the page
  headings). Every exception the code can raise is a value of \<open>error\<close>, and a function
  that may raise returns \<open>error + 'a\<close> with \<open>Inl\<close> for the exception.
\<close>

datatype value_error =
    Bad_output            \<comment> \<open>the output argument is neither 'dict' nor 'dataframe'\<close>
  | Bad_exchange string   \<comment> \<open>\<^verbatim>\<open>"'exchange' must be either one of: " + exchanges_str\<close>\<close>
  | Bad_float string      \<comment> \<open>\<^verbatim>\<open>float(x)\<close> on a string that is no float literal\<close>
  | Bad_int string        \<comment> \<open>\<^verbatim>\<open>int(x)\<close> on a string that is no integer literal\<close>
  | No_objects            \<comment> \<open>\<^verbatim>\<open>pd.concat([])\<close>: no objects to concatenate\<close>
  | Unknown_function string  \<comment> \<open>\<^verbatim>\<open>get_parser\<close> with an unknown function name\<close>
  | No_entries string     \<comment> \<open>\<^verbatim>\<open>search_stock_lxml\<close>: the result table has no row\<close>
  | Bad_unpack            \<comment> \<open>a tuple assignment from a list of another length\<close>
  | Bad_columns           \<comment> \<open>\<^verbatim>\<open>pd.DataFrame\<close>: the row has not as many cells as there are columns\<close>

datatype error =
    ValueError value_error
  | TypeError
  | AttributeError
  | IndexError
  | KeyError
  | UnboundLocalError
  | NoDataException string
  | RequestException
  | SystemExit
  | Foreign string   \<comment> \<open>an exception raised inside an imported function of the package, by its name\<close>

text \<open>Evaluating a list of results from left to right: the first exception wins.\<close>

fun sequence :: "('e + 'a) list \<Rightarrow> 'e + 'a list" where
  "sequence [] = Inr []"
| "sequence (r # rs) =
     (case r of
        Inl e \<Rightarrow> Inl e
      | Inr v \<Rightarrow> (case sequence rs of Inl e \<Rightarrow> Inl e | Inr vs \<Rightarrow> Inr (v # vs)))"

subsection \<open>Characters\<close>

definition is_digit :: "char \<Rightarrow> bool" where
  "is_digit c = (c \<in> set ''0123456789'')"

definition digit_val :: "char \<Rightarrow> nat" where
  "digit_val c = of_char c - 48"

text \<open>
  The characters \<^verbatim>\<open>str.strip\<close> treats as white space, of those below 256: tab to
  carriage return, the separators 28 to 31, the blank, NEL and the no-break space.
  \<^verbatim>\<open>int\<close> and \<^verbatim>\<open>float\<close> skip the same characters around a literal but for the
  separators 28 to 31, on which they raise.
\<close>

definition is_space :: "char \<Rightarrow> bool" where
  "is_space c = ((of_char c :: nat) \<in> set [9, 10, 11, 12, 13, 28, 29, 30, 31, 32, 133, 160])"

definition is_numeric_space :: "char \<Rightarrow> bool" where
  "is_numeric_space c = ((of_char c :: nat) \<in> set [9, 10, 11, 12, 13, 32, 133, 160])"

text \<open>
  The cased letters below 256: the ASCII letters, and the letters of the Latin-1
  supplement from 192 to 222 (without the multiplication sign, 215) with their lower-case
  forms from 224 to 254 (without the division sign, 247).
\<close>

definition ascii_uppercase :: string where
  "ascii_uppercase = ''ABCDEFGHIJKLMNOPQRSTUVWXYZ''"

definition ascii_lowercase :: string where
  "ascii_lowercase = ''abcdefghijklmnopqrstuvwxyz''"

definition latin1_uppercase :: string where
  "latin1_uppercase =
     [CHR 0xC0, CHR 0xC1, CHR 0xC2, CHR 0xC3, CHR 0xC4, CHR 0xC5, CHR 0xC6, CHR 0xC7,
      CHR 0xC8, CHR 0xC9, CHR 0xCA, CHR 0xCB, CHR 0xCC, CHR 0xCD, CHR 0xCE, CHR 0xCF,
      CHR 0xD0, CHR 0xD1, CHR 0xD2, CHR 0xD3, CHR 0xD4, CHR 0xD5, CHR 0xD6, CHR 0xD8,
      CHR 0xD9, CHR 0xDA, CHR 0xDB, CHR 0xDC, CHR 0xDD, CHR 0xDE]"

definition latin1_lowercase :: string where
  "latin1_lowercase =
     [CHR 0xE0, CHR 0xE1, CHR 0xE2, CHR 0xE3, CHR 0xE4, CHR 0xE5, CHR 0xE6, CHR 0xE7,
      CHR 0xE8, CHR 0xE9, CHR 0xEA, CHR 0xEB, CHR 0xEC, CHR 0xED, CHR 0xEE, CHR 0xEF,
      CHR 0xF0, CHR 0xF1, CHR 0xF2, CHR 0xF3, CHR 0xF4, CHR 0xF5, CHR 0xF6, CHR 0xF8,
      CHR 0xF9, CHR 0xFA, CHR 0xFB, CHR 0xFC, CHR 0xFD, CHR 0xFE]"

fun translate :: "string \<Rightarrow> string \<Rightarrow> char \<Rightarrow> char" where
  "translate (f # fs) (t # ts) c = (if c = f then t else translate fs ts c)"
| "translate fs ts c = c"

definition lower_char :: "char \<Rightarrow> char" where
  "lower_char c =
     translate (ascii_uppercase @ latin1_uppercase) (ascii_lowercase @ latin1_lowercase) c"

text \<open>
  \<^verbatim>\<open>str.upper\<close>: the sharp s (223) becomes \<^verbatim>\<open>SS\<close>. The upper-case forms of the micro
  sign (181) and of y with diaeresis (255) lie above 255; the model leaves these two
  characters as they are.
\<close>

definition upper_char :: "char \<Rightarrow> string" where
  "upper_char c =
     (if c = CHR 0xDF then ''SS''
      else [translate (ascii_lowercase @ latin1_lowercase) (ascii_uppercase @ latin1_uppercase) c])"

definition lower :: "string \<Rightarrow> string" where
  "lower s = map lower_char s"

definition upper :: "string \<Rightarrow> string" where
  "upper s = concat (map upper_char s)"

definition strip :: "string \<Rightarrow> string" where
  "strip s = rev (dropWhile is_space (rev (dropWhile is_space s)))"

definition strip_numeric :: "string \<Rightarrow> string" where
  "strip_numeric s = rev (dropWhile is_numeric_space (rev (dropWhile is_numeric_space s)))"

definition endswith :: "string \<Rightarrow> string \<Rightarrow> bool" where
  "endswith s suffix = (length suffix \<le> length s \<and> drop (length s - length suffix) s = suffix)"

subsection \<open>\<^verbatim>\<open>int(x)\<close> and \<^verbatim>\<open>float(x)\<close> on strings\<close>

definition dec :: "string \<Rightarrow> nat" where
  "dec ds = foldl (\<lambda>n c. 10 * n + digit_val c) 0 ds"

text \<open>
  Both conversions allow single underscores between digits: an underscore must follow
  a digit and be followed by one.
\<close>

fun underscores_ok :: "char \<Rightarrow> string \<Rightarrow> bool" where
  "underscores_ok prev [] = (prev \<noteq> CHR ''_'')"
| "underscores_ok prev (c # cs) =
     ((if c = CHR ''_'' then is_digit prev else (prev = CHR ''_'' \<longrightarrow> is_digit c))
      \<and> underscores_ok c cs)"

definition split_sign :: "string \<Rightarrow> bool \<times> string" where
  "split_sign s =
     (case s of
        [] \<Rightarrow> (False, [])
      | c # cs \<Rightarrow> if c = CHR ''-'' then (True, cs) else if c = CHR ''+'' then (False, cs)
                 else (False, s))"

definition py_int :: "string \<Rightarrow> error + int" where
  "py_int x =
     (let t = strip_numeric x
      in if \<not> underscores_ok (CHR 0x00) t then Inl (ValueError (Bad_int x))
      else
        (let (neg, ds) = split_sign (filter (\<lambda>c. c \<noteq> CHR ''_'') t)
         in if ds \<noteq> [] \<and> list_all is_digit ds
            then Inr (if neg then - int (dec ds) else int (dec ds))
            else Inl (ValueError (Bad_int x))))"

text \<open>
  A Python float is modelled by the number its literal denotes: \<open>Finite q\<close> stands for
  the double nearest to the rational \<open>q\<close>, which is \<^verbatim>\<open>inf\<close> or \<^verbatim>\<open>-inf\<close> where \<open>q\<close> lies
  beyond the largest double. Rounding to 53 bits is a function of \<open>q\<close> alone,
  so two literals of the same \<open>q\<close> give the same double; the rounding itself is outside
  the model. The literals are those of \<^verbatim>\<open>float\<close>: white space around, a sign, digits with
  a point and an exponent, or one of \<^verbatim>\<open>inf\<close>, \<^verbatim>\<open>infinity\<close>, \<^verbatim>\<open>nan\<close> in any case.
\<close>

datatype pyfloat = Finite rat | Infinity bool | NaN

definition ascii_lower :: "char \<Rightarrow> char" where
  "ascii_lower c = translate ascii_uppercase ascii_lowercase c"

definition signed :: "bool \<Rightarrow> rat \<Rightarrow> rat" where
  "signed neg q = (if neg then - q else q)"

definition py_float :: "string \<Rightarrow> error + pyfloat" where
  "py_float x =
     (let t = strip_numeric x
      in if \<not> underscores_ok (CHR 0x00) t then Inl (ValueError (Bad_float x))
      else
        (let (neg, body) = split_sign (filter (\<lambda>c. c \<noteq> CHR ''_'') t);
             ip = takeWhile is_digit body;
             r1 = dropWhile is_digit body;
             (fp, r2) = (case r1 of
                           [] \<Rightarrow> ([], [])
                         | c # cs \<Rightarrow> if c = CHR ''.''
                                     then (takeWhile is_digit cs, dropWhile is_digit cs)
                                     else ([], r1));
             mant = rat_of_nat (dec (ip @ fp)) / 10 ^ length fp
         in if ip = [] \<and> fp = []
            then (if map ascii_lower body \<in> set [''inf'', ''infinity''] then Inr (Infinity neg)
                  else if map ascii_lower body = ''nan'' then Inr NaN
                  else Inl (ValueError (Bad_float x)))
            else
              (case r2 of
                 [] \<Rightarrow> Inr (Finite (signed neg mant))
               | c # cs \<Rightarrow>
                   (let (eneg, ed) = split_sign cs
                    in if c \<in> set ''eE'' \<and> ed \<noteq> [] \<and> list_all is_digit ed
                       then Inr (Finite (signed neg
                              (if eneg then mant / 10 ^ dec ed else mant * 10 ^ dec ed)))
                       else Inl (ValueError (Bad_float x))))))"

section \<open>Numeric normalisation of table cells\<close>

text \<open>
  The three substitutions and the conversion of \<^verbatim>\<open>_parse_table\<close> (fundamentals), for one
  cell text:
  \<^verbatim>\<open>
  row_data = [re.sub(r"\.", "", x) for x in row_data]
  row_data = [re.sub(",", ".", x) for x in row_data]
  row_data = [float(x) if x not in ["-", "< 0 *"] else None for x in row_data]
  \<close>
\<close>

definition remove_dots :: "string \<Rightarrow> string" where
  "remove_dots x = filter (\<lambda>c. c \<noteq> CHR ''.'') x"

definition comma_to_dot :: "string \<Rightarrow> string" where
  "comma_to_dot x = map (\<lambda>c. if c = CHR '','' then CHR ''.'' else c) x"

definition float_or_none :: "string \<Rightarrow> error + pyfloat option" where
  "float_or_none x =
     (if x \<notin> set [''-'', ''< 0 *'']
      then (case py_float x of Inl e \<Rightarrow> Inl e | Inr v \<Rightarrow> Inr (Some v))
      else Inr None)"

definition parse_table_cell :: "string \<Rightarrow> error + pyfloat option" where
  "parse_table_cell x = float_or_none (comma_to_dot (remove_dots x))"

text \<open>
  The four steps of \<^verbatim>\<open>get_estimates\<close>, for one cell text:
  \<^verbatim>\<open>
  row_data = [x if x != "-" else None for x in row_data]
  row_data = [re.sub(r"[^\d,]", "", x) if x is not None else x for x in row_data]
  row_data = [re.sub(",", ".", x) if x is not None else x for x in row_data]
  row_data = [float(x) if x is not None else x for x in row_data]
  \<close>
\<close>

definition keep_digits_comma :: "string \<Rightarrow> string" where
  "keep_digits_comma x = filter (\<lambda>c. is_digit c \<or> c = CHR '','') x"

definition estimates_cell :: "string \<Rightarrow> error + pyfloat option" where
  "estimates_cell x =
     (let x1 = (if x \<noteq> ''-'' then Some x else None);
          x2 = map_option keep_digits_comma x1;
          x3 = map_option comma_to_dot x2
      in case x3 of
           None \<Rightarrow> Inr None
         | Some y \<Rightarrow> (case py_float y of Inl e \<Rightarrow> Inl e | Inr v \<Rightarrow> Inr (Some v)))"

section \<open>The parsed page\<close>

text \<open>
  \<^verbatim>\<open>_make_soup\<close> returns the tree BeautifulSoup builds from the page. A node is a tag
  (its name, the list of its classes, under which BeautifulSoup holds the multi-valued
  attribute \<^verbatim>\<open>class\<close>, its other attributes, its children) or a string.
\<close>

datatype node =
    Tag (tag_name: string) (tag_classes: "string list") (tag_attrs: "(string \<times> string) list")
        (tag_contents: "node list")
  | NavigableString string

fun is_tag :: "node \<Rightarrow> bool" where
  "is_tag (Tag n cl a ch) = True"
| "is_tag (NavigableString s) = False"

text \<open>All nodes below a node, in document order.\<close>

fun descendants :: "node \<Rightarrow> node list" where
  "descendants (Tag n cl a ch) = concat (map (\<lambda>x. x # descendants x) ch)"
| "descendants (NavigableString s) = []"

text \<open>\<^verbatim>\<open>tag.get_text()\<close>: the strings below the tag, concatenated.\<close>

fun get_text :: "node \<Rightarrow> string" where
  "get_text (Tag n cl a ch) = concat (map get_text ch)"
| "get_text (NavigableString s) = s"

text \<open>
  \<^verbatim>\<open>tag.string\<close>: the string of a tag with exactly one child, which is a string or a
  tag that has a \<^verbatim>\<open>.string\<close> itself; \<open>None\<close> otherwise.
\<close>

fun string_of :: "node \<Rightarrow> string option" where
  "string_of (NavigableString s) = Some s"
| "string_of (Tag n cl a ch) = (case ch of [x] \<Rightarrow> string_of x | _ \<Rightarrow> None)"

definition named :: "string \<Rightarrow> node \<Rightarrow> bool" where
  "named nm x = (is_tag x \<and> tag_name x = nm)"

text \<open>\<^verbatim>\<open>tag.find_all(nm)\<close> and \<^verbatim>\<open>tag.find(nm, {"class": cl})\<close>.\<close>

definition find_all :: "node \<Rightarrow> string \<Rightarrow> node list" where
  "find_all t nm = filter (named nm) (descendants t)"

definition find_class :: "node \<Rightarrow> string \<Rightarrow> string \<Rightarrow> node option" where
  "find_class t nm cl = List.find (\<lambda>x. named nm x \<and> cl \<in> set (tag_classes x)) (descendants t)"

definition find_name :: "node \<Rightarrow> string \<Rightarrow> node option" where
  "find_name t nm = List.find (named nm) (descendants t)"

text \<open>
  \<^verbatim>\<open>re.compile(p).search(s)\<close> for a pattern without special characters: \<open>p\<close> occurs in
  \<open>s\<close>. With a leading \<^verbatim>\<open>^\<close> the rest of the pattern starts \<open>s\<close>.
\<close>

fun contains :: "string \<Rightarrow> string \<Rightarrow> bool" where
  "contains p [] = (p = [])"
| "contains p (c # cs) = (take (length p) (c # cs) = p \<or> contains p cs)"

definition startswith :: "string \<Rightarrow> string \<Rightarrow> bool" where
  "startswith s p = (take (length p) s = p)"

text \<open>
  \<^verbatim>\<open>soup.find(nm, text=re.compile(...))\<close> is the first tag of that name, in document
  order, whose \<^verbatim>\<open>.string\<close> exists and matches. \<open>find_text_parent\<close> is its \<^verbatim>\<open>.parent\<close>:
  the tag that has it as a child.
\<close>

definition text_matches :: "string \<Rightarrow> (string \<Rightarrow> bool) \<Rightarrow> node \<Rightarrow> bool" where
  "text_matches nm pat x =
     (named nm x \<and> (case string_of x of None \<Rightarrow> False | Some s \<Rightarrow> pat s))"

definition find_text :: "node \<Rightarrow> string \<Rightarrow> (string \<Rightarrow> bool) \<Rightarrow> node option" where
  "find_text t nm pat = List.find (text_matches nm pat) (descendants t)"

fun first_some :: "'a option list \<Rightarrow> 'a option" where
  "first_some [] = None"
| "first_some (None # rs) = first_some rs"
| "first_some (Some v # rs) = Some v"

fun find_parent :: "(node \<Rightarrow> bool) \<Rightarrow> node \<Rightarrow> node option" where
  "find_parent P (Tag n cl a ch) =
     first_some (map (\<lambda>x. if P x then Some (Tag n cl a ch) else find_parent P x) ch)"
| "find_parent P (NavigableString s) = None"

definition find_text_parent :: "node \<Rightarrow> string \<Rightarrow> (string \<Rightarrow> bool) \<Rightarrow> error + node" where
  "find_text_parent t nm pat =
     (case find_parent (text_matches nm pat) t of
        None \<Rightarrow> Inl AttributeError
      | Some p \<Rightarrow> Inr p)"

text \<open>
  What it means for \<open>r\<close> to be the parent of the first of the nodes \<open>ds\<close> that satisfies
  \<open>P\<close>, or \<open>None\<close> when there is none.
\<close>

definition parent_of_first :: "(node \<Rightarrow> bool) \<Rightarrow> node list \<Rightarrow> node option \<Rightarrow> bool" where
  "parent_of_first P ds r =
     (case r of
        None \<Rightarrow> List.find P ds = None
      | Some p \<Rightarrow> \<exists>x. List.find P ds = Some x \<and> is_tag p \<and> x \<in> set (tag_contents p))"

section \<open>The process and the site\<close>

text \<open>
  What a call can touch outside its arguments:
  \<^item> the requests sent so far;
  \<^item> the state of the \<^verbatim>\<open>warnings\<close> machinery: the version of the filter list, which
    every change of the filters raises, the \<^verbatim>\<open>__warningregistry__\<close> of the module with
    the version it was filled under (\<open>None\<close> while the module has no registry), and
    the warnings printed;
  \<^item> the list objects that are the default of the argument \<^verbatim>\<open>results\<close> of the four
    helpers of the second half of the file, by the helper's name.

  The site is a function from the URL to the parsed page; where it is \<open>None\<close>,
  \<^verbatim>\<open>requests.get\<close> raises a \<open>RequestException\<close>.
\<close>

record process =
  sent :: "string list"
  filters_version :: nat
  registry_version :: "nat option"
  warningregistry :: "string list"
  shown :: "string list"
  results_default :: "string \<Rightarrow> string list"

type_synonym site = "string \<Rightarrow> node option"

definition requests_get :: "site \<Rightarrow> string \<Rightarrow> process \<Rightarrow> (error + node) \<times> process" where
  "requests_get web url st =
     (case web url of None \<Rightarrow> Inl RequestException | Some page \<Rightarrow> Inr page,
      st\<lparr>sent := sent st @ [url]\<rparr>)"

definition make_soup :: "site \<Rightarrow> string \<Rightarrow> process \<Rightarrow> (error + node) \<times> process" where
  "make_soup web url st = requests_get web url st"

section \<open>Fundamentals\<close>

text \<open>
  A Python dict is an association list in insertion order: assigning to a key that is
  present replaces its value in place, a new key goes to the end (\<^const>\<open>AList.update\<close>).
  \<^verbatim>\<open>dict(zip(years, row_data))\<close> inserts the pairs from left to right.
\<close>

definition dict_of :: "('k \<times> 'v) list \<Rightarrow> ('k \<times> 'v) list" where
  "dict_of kvs = fold (\<lambda>(k, v). AList.update k v) kvs []"

type_synonym table = "(string \<times> (int \<times> pyfloat option) list) list"

text \<open>
  \<^verbatim>\<open>stock.endswith("-aktie")\<close> guards \<^verbatim>\<open>re.sub("-aktie$", "", stock)\<close>. The pattern matches
  at the end of the string, or before a newline that ends the string.
\<close>

definition sub_aktie_end :: "string \<Rightarrow> string" where
  "sub_aktie_end s =
     (if endswith s ''-aktie'' then take (length s - 6) s
      else if endswith s (''-aktie'' @ [CHR 0x0A]) then take (length s - 7) s @ [CHR 0x0A]
      else s)"

definition normalise_stock :: "string \<Rightarrow> string" where
  "normalise_stock stock =
     (let stock = lower stock
      in if endswith stock ''-aktie'' then sub_aktie_end stock else stock)"

text \<open>The body of the loop over the rows of \<^verbatim>\<open>_parse_table\<close>, and the loop.\<close>

definition parse_table_row :: "int list \<Rightarrow> node \<Rightarrow> error + string \<times> (int \<times> pyfloat option) list" where
  "parse_table_row years row =
     (case find_class row ''td'' ''font-bold'' of
        None \<Rightarrow> Inl AttributeError
      | Some td \<Rightarrow>
          (let name = get_text td;
               row_data = drop 2 (find_all row ''td'');
               row_data = map get_text row_data;
               row_data = map remove_dots row_data;
               row_data = map comma_to_dot row_data
           in case sequence (map float_or_none row_data) of
                Inl e \<Rightarrow> Inl e
              | Inr row_data \<Rightarrow> Inr (name, dict_of (zip years row_data))))"

fun parse_table_rows :: "int list \<Rightarrow> node list \<Rightarrow> table \<Rightarrow> error + table" where
  "parse_table_rows years [] table_dict = Inr table_dict"
| "parse_table_rows years (row # rows) table_dict =
     (case parse_table_row years row of
        Inl e \<Rightarrow> Inl e
      | Inr (name, d) \<Rightarrow> parse_table_rows years rows (AList.update name d table_dict))"

definition parse_table :: "node \<Rightarrow> string \<Rightarrow> error + table" where
  "parse_table soup signaler =
     (case find_text_parent soup ''h2'' (contains signaler) of
        Inl e \<Rightarrow> Inl e
      | Inr table \<Rightarrow>
          (case sequence (map (\<lambda>x. py_int (get_text x)) (drop 2 (find_all table ''th''))) of
             Inl e \<Rightarrow> Inl e
           | Inr years \<Rightarrow> parse_table_rows years (drop 1 (find_all table ''tr'')) []))"

text \<open>
  \<^verbatim>\<open>try: ... except Exception: ... = None\<close>. Every exception of the model but
  \<open>SystemExit\<close> is an \<^verbatim>\<open>Exception\<close>; \<^verbatim>\<open>_parse_table\<close> raises \<open>AttributeError\<close> and
  \<open>ValueError\<close> only (lemma \<open>parse_table_raises\<close> below), so the handler catches all
  it can raise.
\<close>

definition try_except :: "error + 'a \<Rightarrow> 'a option" where
  "try_except r = (case r of Inl e \<Rightarrow> None | Inr v \<Rightarrow> Some v)"

text \<open>
  A DataFrame is the list of its rows; the index is left out. In a row, \<open>None\<close> stands
  for the missing value of pandas, which a column of floats holds as \<^verbatim>\<open>NaN\<close>.
  \<^verbatim>\<open>pd.concat\<close> raises on an empty list of frames.
\<close>

definition pd_concat :: "'r list list \<Rightarrow> error + 'r list" where
  "pd_concat df_list = (if df_list = [] then Inl (ValueError No_objects) else Inr (concat df_list))"

datatype ('d, 'r) returned = Dict 'd | DataFrame "'r list"

type_synonym fundamentals_row = "string \<times> string \<times> int \<times> pyfloat option"

type_synonym fundamentals_result = "((string \<times> table option) list, fundamentals_row) returned"

text \<open>
  The two loops that fill \<^verbatim>\<open>df_list\<close>: iterating over a section that is \<^verbatim>\<open>None\<close>
  raises \<open>TypeError\<close>.
\<close>

fun fundamentals_frames :: "(string \<times> table option) list \<Rightarrow> error + fundamentals_row list list" where
  "fundamentals_frames [] = Inr []"
| "fundamentals_frames ((f, None) # rest) = Inl TypeError"
| "fundamentals_frames ((f, Some t) # rest) =
     (case fundamentals_frames rest of
        Inl e \<Rightarrow> Inl e
      | Inr dfs \<Rightarrow> Inr (map (\<lambda>(i, d). map (\<lambda>(y, v). (f, i, y, v)) d) t @ dfs))"

definition fundamentals_of :: "node \<Rightarrow> (string \<times> table option) list" where
  "fundamentals_of soup =
     (let quote_info = try_except (parse_table soup ''Die Aktie'');
          key_ratios = try_except (parse_table soup ''Unternehmenskennzahlen'');
          income_info = try_except (parse_table soup ''GuV'');
          balance_sheet = try_except (parse_table soup ''Bilanz'');
          other_info = try_except (parse_table soup ''sonstige Angaben'')
      in [(''Quotes'', quote_info),
          (''Key Ratios'', key_ratios),
          (''Income Statement'', income_info),
          (''Balance Sheet'', balance_sheet),
          (''Other'', other_info)])"

text \<open>
  \<^verbatim>\<open>check_data\<close> is imported from \<^verbatim>\<open>finanzen_fundamentals.functions\<close> and is a parameter
  here.
\<close>

definition get_fundamentals ::
  "(node \<Rightarrow> bool) \<Rightarrow> site \<Rightarrow> string \<Rightarrow> string \<Rightarrow> process \<Rightarrow> (error + fundamentals_result) \<times> process" where
  "get_fundamentals check_data web stock output st =
     (if output \<notin> set [''dataframe'', ''dict''] then (Inl (ValueError Bad_output), st)
      else
        (let stock = normalise_stock stock;
             (r, st) = make_soup web (''https://www.finanzen.net/bilanz_guv/'' @ stock) st
         in case r of
              Inl e \<Rightarrow> (Inl e, st)
            | Inr soup \<Rightarrow>
                if \<not> check_data soup
                then (Inl (NoDataException (''Could not find stock: '' @ stock)), st)
                else
                  (let fundamentals = fundamentals_of soup
                   in if output = ''dict'' then (Inr (Dict fundamentals), st)
                      else
                        (case fundamentals_frames fundamentals of
                           Inl e \<Rightarrow> (Inl e, st)
                         | Inr df_list \<Rightarrow>
                             (case pd_concat df_list of
                                Inl e \<Rightarrow> (Inl e, st)
                              | Inr df \<Rightarrow> (Inr (DataFrame df), st))))))"

section \<open>Estimates\<close>

type_synonym estimates_table = "(string \<times> (string \<times> pyfloat option) list) list"

type_synonym estimates_row = "string \<times> string \<times> pyfloat option"

definition estimates_table_row :: "string list \<Rightarrow> node \<Rightarrow> error + string \<times> (string \<times> pyfloat option) list" where
  "estimates_table_row years row =
     (let fields = find_all row ''td'';
          fields = map get_text fields
      in case fields of
           [] \<Rightarrow> Inl IndexError
         | name # row_data \<Rightarrow>
             (case sequence (map estimates_cell row_data) of
                Inl e \<Rightarrow> Inl e
              | Inr row_data \<Rightarrow> Inr (name, dict_of (zip years row_data))))"

fun estimates_table_rows :: "string list \<Rightarrow> node list \<Rightarrow> estimates_table \<Rightarrow> error + estimates_table" where
  "estimates_table_rows years [] table_dict = Inr table_dict"
| "estimates_table_rows years (row # rows) table_dict =
     (case estimates_table_row years row of
        Inl e \<Rightarrow> Inl e
      | Inr (name, d) \<Rightarrow> estimates_table_rows years rows (AList.update name d table_dict))"

text \<open>
  The heading the pattern of \<^verbatim>\<open>get_estimates\<close> asks for after its \<^verbatim>\<open>^\<close>: \<^verbatim>\<open>Sch\<close>, the
  a with diaeresis (code point 228), \<^verbatim>\<open>tzungen\<close>.
\<close>

definition schaetzungen :: string where
  "schaetzungen = ''Sch'' @ [CHR 0xE4] @ ''tzungen''"

definition estimates_of :: "node \<Rightarrow> error + estimates_table" where
  "estimates_of soup =
     (case find_text_parent soup ''h1'' (\<lambda>s. startswith s schaetzungen) of
        Inl e \<Rightarrow> Inl e
      | Inr table \<Rightarrow>
          (let years = drop 1 (find_all table ''th'');
               years = map get_text years;
               rows = drop 1 (find_all table ''tr'')
           in estimates_table_rows years rows []))"

definition get_estimates ::
  "(node \<Rightarrow> bool) \<Rightarrow> site \<Rightarrow> string \<Rightarrow> string \<Rightarrow> process
     \<Rightarrow> (error + (estimates_table, estimates_row) returned) \<times> process" where
  "get_estimates check_data web stock output st =
     (if output \<notin> set [''dataframe'', ''dict''] then (Inl (ValueError Bad_output), st)
      else
        (let stock = normalise_stock stock;
             (r, st) = make_soup web (''https://www.finanzen.net/schaetzungen/'' @ stock) st
         in case r of
              Inl e \<Rightarrow> (Inl e, st)
            | Inr soup \<Rightarrow>
                if \<not> check_data soup
                then (Inl (NoDataException (''Could not find stock: '' @ stock)), st)
                else
                  (case estimates_of soup of
                     Inl e \<Rightarrow> (Inl e, st)
                   | Inr table_dict \<Rightarrow>
                       if output = ''dict'' then (Inr (Dict table_dict), st)
                       else
                         (case pd_concat (map (\<lambda>(f, d). map (\<lambda>(y, v). (f, y, v)) d) table_dict) of
                            Inl e \<Rightarrow> (Inl e, st)
                          | Inr df \<Rightarrow> (Inr (DataFrame df), st)))))"

section \<open>Price\<close>

text \<open>
  \<^verbatim>\<open>statics.exchanges\<close>, \<^verbatim>\<open>check_data\<close>, \<^verbatim>\<open>parse_price\<close> and \<^verbatim>\<open>parse_timestamp\<close> live in
  modules of the package that are imported here; they are parameters. The price and
  the timestamp are of the types \<open>'p\<close> and \<open>'t\<close> that the two parsers return; where a
  parser returns \<open>Inl n\<close> it raises, and the call raises \<open>Foreign n\<close>.
\<close>

record ('p, 't) price =
  Price :: 'p
  Currency :: string
  Timestamp :: 't
  Stock :: string
  Exchange :: string

fun join :: "string \<Rightarrow> string list \<Rightarrow> string" where
  "join sep [] = []"
| "join sep [x] = x"
| "join sep (x # y # ys) = x @ sep @ join sep (y # ys)"

definition price_url :: "string \<Rightarrow> string \<Rightarrow> string" where
  "price_url stock exchange = ''https://www.finanzen.net/aktien/'' @ stock @ ''@stBoerse_'' @ exchange"

text \<open>
  The part of \<^verbatim>\<open>get_price\<close> after the page is fetched. \<^verbatim>\<open>tag["datetime"]\<close> raises
  \<open>KeyError\<close> on a tag without the attribute, and subscripting \<^verbatim>\<open>None\<close> raises
  \<open>TypeError\<close>.
\<close>

definition price_of ::
  "(node \<Rightarrow> bool) \<Rightarrow> (string \<Rightarrow> string + 'p \<times> string) \<Rightarrow> (string \<Rightarrow> string + 't)
     \<Rightarrow> node \<Rightarrow> string \<Rightarrow> string \<Rightarrow> error + ('p, 't) price" where
  "price_of check_data parse_price parse_timestamp soup stock exchange =
     (if \<not> check_data soup then Inl (NoDataException (''Could not find stock: '' @ stock))
      else
        (case find_class soup ''div'' ''snapshot__values'' of
           None \<Rightarrow> Inl (NoDataException ''No price available'')
         | Some quotebox \<Rightarrow>
             (case find_class quotebox ''span'' ''snapshot__value-current'' of
                None \<Rightarrow> Inl AttributeError
              | Some current \<Rightarrow>
                  (case parse_price (get_text current) of
                     Inl n \<Rightarrow> Inl (Foreign n)
                   | Inr (price_float, currency) \<Rightarrow>
                       (case find_class soup ''div'' ''snapshot__time'' of
                          None \<Rightarrow> Inl AttributeError
                        | Some snapshot_time \<Rightarrow>
                            (case find_name snapshot_time ''time'' of
                               None \<Rightarrow> Inl TypeError
                             | Some time \<Rightarrow>
                                 (case map_of (tag_attrs time) ''datetime'' of
                                    None \<Rightarrow> Inl KeyError
                                  | Some timestamp \<Rightarrow>
                                      (case parse_timestamp timestamp of
                                         Inl n \<Rightarrow> Inl (Foreign n)
                                       | Inr timestamp \<Rightarrow>
                                           Inr \<lparr>Price = price_float, Currency = currency,
                                                Timestamp = timestamp, Stock = stock,
                                                Exchange = exchange\<rparr>))))))))"

definition get_price ::
  "string list \<Rightarrow> (node \<Rightarrow> bool) \<Rightarrow> (string \<Rightarrow> string + 'p \<times> string) \<Rightarrow> (string \<Rightarrow> string + 't)
     \<Rightarrow> site \<Rightarrow> string \<Rightarrow> string \<Rightarrow> string \<Rightarrow> process
     \<Rightarrow> (error + (('p, 't) price, ('p, 't) price) returned) \<times> process" where
  "get_price exchanges check_data parse_price parse_timestamp web stock exchange output st =
     (let output = lower output;
          stock = lower stock;
          exchange = upper exchange
      in if exchange \<notin> set exchanges
         then (Inl (ValueError (Bad_exchange (join '', '' exchanges))), st)
         else if output \<notin> set [''dict'', ''dataframe''] then (Inl (ValueError Bad_output), st)
         else
           (let url = price_url stock exchange;
                (r, st) = make_soup web url st
            in case r of
                 Inl e \<Rightarrow> (Inl e, st)
               | Inr soup \<Rightarrow>
                   (case price_of check_data parse_price parse_timestamp soup stock exchange of
                      Inl e \<Rightarrow> (Inl e, st)
                    | Inr result \<Rightarrow>
                        if output = ''dataframe'' then (Inr (DataFrame [result]), st)
                        else (Inr (Dict result), st))))"

section \<open>Sample pages\<close>

text \<open>
  Small pages on which the functions are run below: a fundamentals page that has the
  section \<^verbatim>\<open>GuV\<close> only, an estimates page, a quote page, and a process that has not
  done anything yet.
\<close>

definition td :: "string list \<Rightarrow> string \<Rightarrow> node" where
  "td cl s = Tag ''td'' cl [] [NavigableString s]"

definition th :: "string \<Rightarrow> node" where
  "th s = Tag ''th'' [] [] [NavigableString s]"

definition document :: "node list \<Rightarrow> node" where
  "document body = Tag ''[document]'' [] [] [Tag ''html'' [] [] [Tag ''body'' [] [] body]]"

definition page_guv :: node where
  "page_guv = document
     [Tag ''div'' [''box''] []
        [Tag ''h2'' [] [] [NavigableString ''GuV''],
         Tag ''table'' [] []
           [Tag ''tr'' [] [] [th '''', th '''', th ''2020'', th ''2021''],
            Tag ''tr'' [] [] [td [] '''', td [''font-bold''] ''Umsatz'', td [] ''1.000'', td [] ''1.200'']]]]"

definition page_estimates :: node where
  "page_estimates = document
     [Tag ''div'' [''box''] []
        [Tag ''h1'' [] [] [NavigableString (schaetzungen @ '' zu BMW'')],
         Tag ''table'' [] []
           [Tag ''tr'' [] [] [th '''', th ''2024'', th ''2025e''],
            Tag ''tr'' [] [] [td [] ''Umsatz'', td [] ''< 0 *'', td [] ''-'']]]]"

definition page_estimates_malformed :: node where
  "page_estimates_malformed = document
     [Tag ''div'' [''box''] []
        [Tag ''h1'' [] [] [NavigableString schaetzungen],
         Tag ''table'' [] []
           [Tag ''tr'' [] [] [th '''', th ''2024''],
            Tag ''tr'' [] [] []]]]"

definition page_price :: node where
  "page_price = document
     [Tag ''div'' [''snapshot__values''] []
        [Tag ''span'' [''snapshot__value-current''] [] [NavigableString ''85,10 EUR'']],
      Tag ''div'' [''snapshot__time''] []
        [Tag ''time'' [] [(''datetime'', ''2022-01-03 17:35'')] []]]"

definition idle :: process where
  "idle = \<lparr>sent = [], filters_version = 0, registry_version = None, warningregistry = [],
            shown = [], results_default = (\<lambda>f. [])\<rparr>"

text \<open>Stand-ins for the imported functions on these pages.\<close>

definition any_page :: "node \<Rightarrow> bool" where
  "any_page soup = True"

definition price_text :: "string \<Rightarrow> string + string \<times> string" where
  "price_text s = Inr (takeWhile (\<lambda>c. c \<noteq> CHR '' '') s, drop 1 (dropWhile (\<lambda>c. c \<noteq> CHR '' '') s))"

definition timestamp_text :: "string \<Rightarrow> string + string" where
  "timestamp_text s = Inr s"

section \<open>The helpers of the second half of the file\<close>

subsection \<open>Search\<close>

text \<open>
  Modelled from the spec: \<^verbatim>\<open>finanzen_fundamentals.search.search\<close>, the shared search
  operation that \<^verbatim>\<open>search_stock\<close> calls; its module is not among the sources. In the
  words of the specification it is filtered to the results of a category and honours an
  optional result-count limit, unlimited when the limit is negative and zero results
  when it is zero. \<open>found term\<close> is what the site finds for the term, each result with
  its category.
\<close>

definition search :: "(string \<Rightarrow> (string \<times> 'r) list) \<Rightarrow> string \<Rightarrow> string \<Rightarrow> int \<Rightarrow> 'r list" where
  "search found term category limit =
     (let matches = map snd (filter (\<lambda>(c, r). c = category) (found term))
      in if limit < 0 then matches else take (nat limit) matches)"

definition search_stock :: "(string \<Rightarrow> (string \<times> 'r) list) \<Rightarrow> string \<Rightarrow> int \<Rightarrow> 'r list" where
  "search_stock found stock limit = search found stock ''stock'' limit"

subsection \<open>Fetching a page for lxml\<close>

text \<open>
  \<^verbatim>\<open>check_site_availability\<close> turns the \<open>RequestException\<close> of its request into
  \<open>SystemExit\<close>. \<^verbatim>\<open>get_parser\<close> looks the function up, probes the base URL and fetches
  the page; \<^verbatim>\<open>html.fromstring\<close> gives the tree of the page.
\<close>

definition check_site_availability :: "site \<Rightarrow> string \<Rightarrow> process \<Rightarrow> (error + unit) \<times> process" where
  "check_site_availability web url st =
     (let (r, st) = requests_get web url st
      in case r of
           Inl e \<Rightarrow> (Inl (if e = RequestException then SystemExit else e), st)
         | Inr page \<Rightarrow> (Inr (), st))"

definition base_url :: string where
  "base_url = ''https://www.finanzen.net''"

definition functions_dict :: "(string \<times> string) list" where
  "functions_dict =
     [(''search'', ''/suchergebnis.asp?_search=''),
      (''stock'', ''/aktien/''),
      (''estimates'', ''/schaetzungen/''),
      (''fundamentals'', ''/bilanz_guv/''),
      (''index'', ''/index/'')]"

definition get_parser :: "site \<Rightarrow> string \<Rightarrow> string \<Rightarrow> process \<Rightarrow> (error + node) \<times> process" where
  "get_parser web function stock_name st =
     (case map_of functions_dict function of
        None \<Rightarrow> (Inl (ValueError (Unknown_function function)), st)
      | Some path \<Rightarrow>
          (let (r, st) = check_site_availability web base_url st
           in case r of
                Inl e \<Rightarrow> (Inl e, st)
              | Inr u \<Rightarrow> requests_get web (base_url @ path @ stock_name) st))"

subsection \<open>The XPath queries of \<^verbatim>\<open>search_stock_lxml\<close>\<close>

text \<open>
  \<open>inside_of P False t\<close> lists, in document order, the nodes below \<open>t\<close> that satisfy \<open>P\<close>
  or lie below a node that does: \<^verbatim>\<open>.//p/descendant-or-self::node()\<close>.
\<close>

fun inside_of :: "(node \<Rightarrow> bool) \<Rightarrow> bool \<Rightarrow> node \<Rightarrow> node list" where
  "inside_of P inside (Tag n cl a ch) =
     concat (map (\<lambda>x. (if inside \<or> P x then [x] else []) @ inside_of P (inside \<or> P x) x) ch)"
| "inside_of P inside (NavigableString s) = []"

text \<open>
  \<^verbatim>\<open>//div[contains(@class, "table")]//tr\<close>: the rows below a \<^verbatim>\<open>div\<close> whose class
  attribute contains \<^verbatim>\<open>table\<close>. The attribute is the classes with blanks between them,
  and \<^verbatim>\<open>table\<close> has no blank, so one of the classes contains it.
\<close>

definition table_div :: "node \<Rightarrow> bool" where
  "table_div x = (named ''div'' x \<and> list_ex (contains ''table'') (tag_classes x))"

definition xpath_table_rows :: "node \<Rightarrow> node list" where
  "xpath_table_rows parser =
     filter (named ''tr'') (inside_of table_div False parser)"

text \<open>\<^verbatim>\<open>./text()\<close>: the strings that are children of the node.\<close>

fun texts :: "node \<Rightarrow> string list" where
  "texts (Tag n cl a ch) = concat (map (\<lambda>x. case x of NavigableString s \<Rightarrow> [s] | _ \<Rightarrow> []) ch)"
| "texts (NavigableString s) = []"

text \<open>
  \<^verbatim>\<open>.//a/text()\<close>: the strings, in document order, whose parent is an \<^verbatim>\<open>a\<close> below the
  node.
\<close>

fun texts_of_named :: "string \<Rightarrow> bool \<Rightarrow> node \<Rightarrow> string list" where
  "texts_of_named nm below (Tag n cl a ch) =
     concat (map (\<lambda>x. case x of
                         NavigableString s \<Rightarrow> if below \<and> n = nm then [s] else []
                       | _ \<Rightarrow> texts_of_named nm True x) ch)"
| "texts_of_named nm below (NavigableString s) = []"

text \<open>\<^verbatim>\<open>.//a//@href\<close>: the \<^verbatim>\<open>href\<close> of every \<^verbatim>\<open>a\<close> below the node and of every tag inside one.\<close>

definition hrefs :: "node \<Rightarrow> string list" where
  "hrefs t =
     concat (map (\<lambda>x. case map_of (tag_attrs x) ''href'' of None \<Rightarrow> [] | Some h \<Rightarrow> [h])
               (filter is_tag (inside_of (named ''a'') False t)))"

text \<open>\<^verbatim>\<open>xs[i]\<close> for a constant index that is not negative.\<close>

definition index :: "'a list \<Rightarrow> nat \<Rightarrow> error + 'a" where
  "index xs i = (if i < length xs then Inr (xs ! i) else Inl IndexError)"

text \<open>\<^verbatim>\<open>s.replace(old, "")\<close> for a pattern that is not empty.\<close>

function remove_all :: "string \<Rightarrow> string \<Rightarrow> string" where
  "remove_all old [] = []"
| "remove_all old (c # cs) =
     (if old \<noteq> [] \<and> take (length old) (c # cs) = old
      then remove_all old (drop (length old) (c # cs))
      else c # remove_all old cs)"
  by pat_completeness auto
termination
  by (relation "measure (\<lambda>(old, s). length s)") auto

subsection \<open>\<^verbatim>\<open>search_stock_lxml\<close>\<close>

type_synonym search_row = "string \<times> string \<times> string \<times> string"

text \<open>
  What the body of the loop reads from a row of the table, before it looks at the
  limit: the name, the identifier of the site, the ISIN and the WKN. A row with fewer
  than three cells raises \<open>IndexError\<close>.
\<close>

definition search_row :: "node \<Rightarrow> error + search_row" where
  "search_row table_element =
     (let raw_name = strip (concat (texts_of_named ''a'' False table_element));
          raw_link = strip (concat (hrefs table_element))
      in case index (find_all table_element ''td'') 1 of
           Inl e \<Rightarrow> Inl e
         | Inr td1 \<Rightarrow>
             (let raw_isin = strip (concat (texts td1))
              in case index (find_all table_element ''td'') 2 of
                   Inl e \<Rightarrow> Inl e
                 | Inr td2 \<Rightarrow>
                     (let raw_wkn = strip (concat (texts td2));
                          fn_stock_name = remove_all ''-aktie'' (remove_all ''/aktien/'' raw_link)
                      in Inr (raw_name, fn_stock_name, raw_isin, raw_wkn))))"

text \<open>
  The loop over the rows, with its flag \<^verbatim>\<open>skip_first_element\<close>, the limit it counts
  down and the frame it appends to.
\<close>

fun search_stock_rows :: "node list \<Rightarrow> int \<Rightarrow> int \<Rightarrow> search_row list \<Rightarrow> error + search_row list" where
  "search_stock_rows [] skip_first_element limit df = Inr df"
| "search_stock_rows (table_element # rest) skip_first_element limit df =
     (if skip_first_element = 0 then search_stock_rows rest 1 limit df
      else
        (case search_row table_element of
           Inl e \<Rightarrow> Inl e
         | Inr row \<Rightarrow>
             if limit = 0 then Inr df
             else if limit > 0 then search_stock_rows rest skip_first_element (limit - 1) (df @ [row])
             else search_stock_rows rest skip_first_element limit (df @ [row])))"

definition search_stock_lxml :: "site \<Rightarrow> string \<Rightarrow> int \<Rightarrow> process \<Rightarrow> (error + search_row list) \<times> process" where
  "search_stock_lxml web stock limit st =
     (let (r, st) = get_parser web ''search'' stock st
      in case r of
           Inl e \<Rightarrow> (Inl e, st)
         | Inr parser \<Rightarrow>
             (let summary_table = xpath_table_rows parser
              in if length summary_table = 0 then (Inl (ValueError (No_entries stock)), st)
                 else (search_stock_rows summary_table 0 limit [], st)))"


subsection \<open>Warnings, pandas and default arguments\<close>

text \<open>
  \<^verbatim>\<open>warnings.warn(message, DeprecationWarning)\<close> in a function of the module, under the
  filter \<^verbatim>\<open>'once'\<close> that the module puts in front of the filter list when it is imported.
  CPython keeps what it has warned about in the registry of the calling module and
  empties that registry when the filters have changed since it was filled. A message
  that is in the registry is dropped; a new one is registered and printed. Each helper
  has its own message, so the message stands for the keys CPython makes of it.
\<close>

definition warn :: "string \<Rightarrow> process \<Rightarrow> process" where
  "warn message st =
     (let registry = (if registry_version st = Some (filters_version st)
                      then warningregistry st else [])
      in if message \<in> set registry then st
         else st\<lparr>registry_version := Some (filters_version st),
                 warningregistry := message # registry,
                 shown := shown st @ [message]\<rparr>)"

text \<open>
  A call into pandas can enter and leave \<^verbatim>\<open>warnings.catch_warnings\<close>, and each time it
  does, the version of the filters goes up. How often a call does this is a matter of
  pandas: it is the parameter \<open>mutations\<close>, by the name of the call. Of the functions that
  build frames, the three helpers that also warn are modelled with this effect.
\<close>

definition pandas :: "(string \<Rightarrow> nat) \<Rightarrow> string \<Rightarrow> process \<Rightarrow> process" where
  "pandas mutations call st = st\<lparr>filters_version := filters_version st + mutations call\<rparr>"

text \<open>
  A call that leaves out the argument \<^verbatim>\<open>results\<close> binds it to the default list of the
  helper, which the process holds.
\<close>

definition default_call :: "string \<Rightarrow> (string list \<Rightarrow> process \<Rightarrow> 'r \<times> process) \<Rightarrow> process \<Rightarrow> 'r \<times> process" where
  "default_call helper call st = call (results_default st helper) st"

text \<open>
  \<^verbatim>\<open>search_stock_lxml\<close> takes the argument too, and binds the name to a new list before
  its loop; it reads neither list.
\<close>

definition search_stock_lxml_results ::
  "site \<Rightarrow> string \<Rightarrow> int \<Rightarrow> string list \<Rightarrow> process \<Rightarrow> (error + search_row list) \<times> process" where
  "search_stock_lxml_results web stock limit results st = search_stock_lxml web stock limit st"

subsection \<open>Frames built from rows\<close>

text \<open>
  The cells of the frames of the three helpers are strings and floats. The helpers
  build a frame with
  \<^verbatim>\<open>
  dataframe = pd.DataFrame(list(map(np.ravel, data_table)))
  dataframe.columns = dataframe.iloc[0]
  dataframe.drop(dataframe.index[0], inplace=True)
  \<close>
  so that the first row becomes the header. The frame is kept as the rows it is built
  from: a row shorter than the widest is not padded, and a float stays a float where
  \<^verbatim>\<open>np.ravel\<close> writes one that stands beside strings as text.
\<close>

datatype cell = Str string | Num pyfloat

datatype frame = Frame (frame_columns: "cell list") (frame_rows: "cell list list")

definition frame_of :: "(string \<Rightarrow> nat) \<Rightarrow> cell list list \<Rightarrow> process \<Rightarrow> (error + frame) \<times> process" where
  "frame_of mutations data_table st =
     (let st = pandas mutations ''DataFrame'' st
      in case data_table of
           [] \<Rightarrow> (Inl IndexError, st)
         | header # rest \<Rightarrow>
             (Inr (Frame header rest), pandas mutations ''drop'' (pandas mutations ''columns'' st)))"

subsection \<open>XPath queries of the three helpers\<close>

text \<open>
  The text of the attribute \<^verbatim>\<open>class\<close> is taken to be the classes with one blank
  between them. \<^verbatim>\<open>contains(text(), t)\<close> looks at the first string among the children.
\<close>

definition class_attr :: "node \<Rightarrow> string" where
  "class_attr x = join '' '' (tag_classes x)"

definition class_contains :: "string \<Rightarrow> node \<Rightarrow> bool" where
  "class_contains s x = (is_tag x \<and> contains s (class_attr x))"

definition first_text :: "node \<Rightarrow> string" where
  "first_text x = (case texts x of [] \<Rightarrow> [] | s # ss \<Rightarrow> s)"

text \<open>
  \<^verbatim>\<open>.//a//b//c\<close> for tests \<open>[a, b, c]\<close>: the nodes below the context node that pass the
  last test and lie below nodes that pass the tests before it, one below the other, in
  document order. \<open>descend_texts\<close> is the same query with \<^verbatim>\<open>/text()\<close> at its end: the
  strings that are children of those nodes.
\<close>

fun descend :: "(node \<Rightarrow> bool) list \<Rightarrow> node \<Rightarrow> node list" where
  "descend steps (Tag n cl a ch) =
     concat (map (\<lambda>x. case steps of
                         [] \<Rightarrow> []
                       | [test] \<Rightarrow> (if test x then [x] else []) @ descend steps x
                       | step # rest \<Rightarrow> descend (if step x then rest else steps) x) ch)"
| "descend steps (NavigableString s) = []"

fun descend_texts :: "(node \<Rightarrow> bool) list \<Rightarrow> bool \<Rightarrow> node \<Rightarrow> string list" where
  "descend_texts steps selected (Tag n cl a ch) =
     concat (map (\<lambda>x. case x of
                         NavigableString s \<Rightarrow> if selected then [s] else []
                       | Tag n' cl' a' ch' \<Rightarrow>
                           (case steps of
                              [] \<Rightarrow> []
                            | [test] \<Rightarrow> descend_texts steps (test x) x
                            | step # rest \<Rightarrow>
                                descend_texts (if step x then rest else steps) False x)) ch)"
| "descend_texts steps selected (NavigableString s) = []"

text \<open>
  The headings of the two table queries: an \<^verbatim>\<open>h1\<close> or \<^verbatim>\<open>h2\<close> below a \<^verbatim>\<open>div\<close> whose
  class contains \<^verbatim>\<open>box table-quotes\<close>, with the title in its first string.
\<close>

definition box_table_quotes :: "node \<Rightarrow> bool" where
  "box_table_quotes x = (named ''div'' x \<and> class_contains ''box table-quotes'' x)"

definition heading :: "string \<Rightarrow> string \<Rightarrow> bool \<Rightarrow> node \<Rightarrow> bool" where
  "heading nm title in_box x = (named nm x \<and> in_box \<and> contains title (first_text x))"

text \<open>
  \<^verbatim>\<open>//div[contains(@class, "box table-quotes")]//h2[contains(text(), title)]//..\<close>: the
  parent of every node that is such a heading or lies below one, so the parent of the
  heading, the heading itself when it has children, and every tag with children inside
  it. \<open>in_box\<close> says that a \<^verbatim>\<open>div\<close> of that class lies above the node, \<open>in_heading\<close> that a
  heading does.
\<close>

fun heading_parents :: "string \<Rightarrow> string \<Rightarrow> bool \<Rightarrow> bool \<Rightarrow> node \<Rightarrow> node list" where
  "heading_parents nm title in_box in_heading (Tag n cl a ch) =
     (let in_heading = in_heading \<or> heading nm title in_box (Tag n cl a ch);
          in_box = in_box \<or> box_table_quotes (Tag n cl a ch)
      in (if list_ex (heading nm title in_box) ch \<or> (in_heading \<and> ch \<noteq> [])
          then [Tag n cl a ch] else [])
         @ concat (map (heading_parents nm title in_box in_heading) ch))"
| "heading_parents nm title in_box in_heading (NavigableString s) = []"

text \<open>
  The same query followed by \<^verbatim>\<open>//table//tr\<close>: the rows below a table that lies below
  one of those parents, each row once, in document order. \<open>below_parent\<close> says that one
  of the parents lies above the node, \<open>below_table\<close> that such a table does.
\<close>

fun heading_table_rows ::
  "string \<Rightarrow> string \<Rightarrow> bool \<Rightarrow> bool \<Rightarrow> bool \<Rightarrow> bool \<Rightarrow> node \<Rightarrow> node list" where
  "heading_table_rows nm title in_box in_heading below_parent below_table (Tag n cl a ch) =
     (let in_heading = in_heading \<or> heading nm title in_box (Tag n cl a ch);
          in_box = in_box \<or> box_table_quotes (Tag n cl a ch);
          parent = (list_ex (heading nm title in_box) ch \<or> (in_heading \<and> ch \<noteq> []));
          below_table = below_table \<or> (n = ''table'' \<and> below_parent);
          below_parent = below_parent \<or> parent
      in concat (map (\<lambda>x. (if named ''tr'' x \<and> below_table then [x] else [])
                           @ heading_table_rows nm title in_box in_heading below_parent
                               below_table x) ch))"
| "heading_table_rows nm title in_box in_heading below_parent below_table (NavigableString s) = []"

text \<open>
  The queries of \<^verbatim>\<open>get_current_value_lxml\<close>. A quote box is a \<^verbatim>\<open>div\<close> whose class
  contains \<^verbatim>\<open>row quotebox\<close>; \<^verbatim>\<open>//div[...][1]\<close> takes, under every parent, the first child
  that is one.
\<close>

definition quotebox :: "node \<Rightarrow> bool" where
  "quotebox x = (named ''div'' x \<and> class_contains ''row quotebox'' x)"

fun first_quoteboxes :: "node \<Rightarrow> node list"
  and first_quoteboxes_in :: "bool \<Rightarrow> node list \<Rightarrow> node list" where
  "first_quoteboxes (Tag n cl a ch) = first_quoteboxes_in False ch"
| "first_quoteboxes (NavigableString s) = []"
| "first_quoteboxes_in found [] = []"
| "first_quoteboxes_in found (x # xs) =
     (if \<not> found \<and> quotebox x then [x] else []) @ first_quoteboxes x
       @ first_quoteboxes_in (found \<or> quotebox x) xs"

text \<open>
  \<^verbatim>\<open>//div[...][1]/div[contains(@class, c)]/text()\<close>, and with \<open>spans\<close> the query
  \<^verbatim>\<open>//div[...][1]/div[contains(@class, c)]/span//text()\<close>. The three flags say of the
  node whose children are read that it is a first quote box, that it is a \<^verbatim>\<open>div\<close> of
  the class \<open>c\<close> in one, and that it is a \<^verbatim>\<open>span\<close> in such a \<^verbatim>\<open>div\<close> or lies inside one.
\<close>

fun quotebox_texts :: "string \<Rightarrow> bool \<Rightarrow> bool \<Rightarrow> bool \<Rightarrow> bool \<Rightarrow> node \<Rightarrow> string list"
  and quotebox_texts_in ::
    "string \<Rightarrow> bool \<Rightarrow> bool \<Rightarrow> bool \<Rightarrow> bool \<Rightarrow> bool \<Rightarrow> node list \<Rightarrow> string list" where
  "quotebox_texts c spans first col in_span (Tag n cl a ch) =
     quotebox_texts_in c spans first col in_span False ch"
| "quotebox_texts c spans first col in_span (NavigableString s) = []"
| "quotebox_texts_in c spans first col in_span found [] = []"
| "quotebox_texts_in c spans first col in_span found (x # xs) =
     (case x of
        NavigableString s \<Rightarrow> if (if spans then in_span else col) then [s] else []
      | Tag n' cl' a' ch' \<Rightarrow>
          quotebox_texts c spans (\<not> found \<and> quotebox x)
            (first \<and> n' = ''div'' \<and> class_contains c x)
            (in_span \<or> (col \<and> n' = ''span'')) x)
     @ quotebox_texts_in c spans first col in_span (found \<or> quotebox x) xs"

text \<open>
  \<^verbatim>\<open>//div[...]/div[4]/div[i]/text()\<close>: the strings in the \<open>i\<close>-th \<^verbatim>\<open>div\<close> of the fourth
  \<^verbatim>\<open>div\<close> of any quote box. \<open>fourth\<close> and \<open>selected\<close> say of the node whose children are
  read that it is such a fourth, and such an \<open>i\<close>-th, \<^verbatim>\<open>div\<close>; \<open>k\<close> counts the children
  read so far that are a \<^verbatim>\<open>div\<close>.
\<close>

fun quotebox_cell_texts :: "nat \<Rightarrow> bool \<Rightarrow> bool \<Rightarrow> node \<Rightarrow> string list"
  and quotebox_cell_texts_in :: "nat \<Rightarrow> bool \<Rightarrow> bool \<Rightarrow> bool \<Rightarrow> nat \<Rightarrow> node list \<Rightarrow> string list" where
  "quotebox_cell_texts i fourth selected (Tag n cl a ch) =
     quotebox_cell_texts_in i (quotebox (Tag n cl a ch)) fourth selected 0 ch"
| "quotebox_cell_texts i fourth selected (NavigableString s) = []"
| "quotebox_cell_texts_in i box fourth selected k [] = []"
| "quotebox_cell_texts_in i box fourth selected k (x # xs) =
     (case x of
        NavigableString s \<Rightarrow>
          (if selected then [s] else []) @ quotebox_cell_texts_in i box fourth selected k xs
      | Tag n' cl' a' ch' \<Rightarrow>
          (let k = (if n' = ''div'' then Suc k else k)
           in quotebox_cell_texts i (box \<and> n' = ''div'' \<and> k = 4)
                (fourth \<and> n' = ''div'' \<and> k = i) x
              @ quotebox_cell_texts_in i box fourth selected k xs))"

text \<open>\<^verbatim>\<open>s.split(sep)\<close> for a separator that is not empty.\<close>

function split_from :: "string \<Rightarrow> string \<Rightarrow> string \<Rightarrow> string list" where
  "split_from sep acc [] = [rev acc]"
| "split_from sep acc (c # cs) =
     (if sep \<noteq> [] \<and> take (length sep) (c # cs) = sep
      then rev acc # split_from sep [] (drop (length sep) (c # cs))
      else split_from sep (c # acc) cs)"
  by pat_completeness auto
termination
  by (relation "measure (\<lambda>(sep, acc, s). length s)") auto

definition py_split :: "string \<Rightarrow> string \<Rightarrow> string list" where
  "py_split sep s = split_from sep [] s"

subsection \<open>\<^verbatim>\<open>get_estimates_lxml\<close>\<close>

text \<open>
  A cell of a row after the header, from the second on:
  \<^verbatim>\<open>
  if not table_row[i] == '-':
      table_row[i] = table_row[i].replace(".", "").replace(",", ".")
      table_row[i] = float(table_row[i].split(" ")[0])
  \<close>
\<close>

definition estimates_lxml_cell :: "string \<Rightarrow> error + cell" where
  "estimates_lxml_cell x =
     (if \<not> x = ''-''
      then (case py_float (takeWhile (\<lambda>c. c \<noteq> CHR '' '') (comma_to_dot (remove_dots x))) of
              Inl e \<Rightarrow> Inl e
            | Inr v \<Rightarrow> Inr (Num v))
      else Inr (Str x))"

text \<open>
  The row the loop makes of a \<^verbatim>\<open>tr\<close>: the first string of every child tag, then the
  header or the floats. A child without a string and a header row without a child raise
  \<open>IndexError\<close>.
\<close>

definition estimates_lxml_row :: "int \<Rightarrow> node \<Rightarrow> error + cell list" where
  "estimates_lxml_row header_row data_element =
     (case sequence (map (\<lambda>i. index (texts i) 0) (filter is_tag (tag_contents data_element))) of
        Inl e \<Rightarrow> Inl e
      | Inr table_row \<Rightarrow>
          if header_row \<noteq> 0
          then (case table_row of
                  [] \<Rightarrow> Inr []
                | x # xs \<Rightarrow>
                    (case sequence (map estimates_lxml_cell xs) of
                       Inl e \<Rightarrow> Inl e
                     | Inr cells \<Rightarrow> Inr (Str x # cells)))
          else (case table_row of
                  [] \<Rightarrow> Inl IndexError
                | x # xs \<Rightarrow> Inr (Str ''Estimation'' # map Str xs)))"

fun estimates_lxml_rows ::
  "(string \<Rightarrow> nat) \<Rightarrow> node list \<Rightarrow> int \<Rightarrow> cell list list \<Rightarrow> frame option \<Rightarrow> process
     \<Rightarrow> (error + frame option) \<times> process" where
  "estimates_lxml_rows mutations [] header_row data_table dataframe st = (Inr dataframe, st)"
| "estimates_lxml_rows mutations (data_element # rest) header_row data_table dataframe st =
     (case estimates_lxml_row header_row data_element of
        Inl e \<Rightarrow> (Inl e, st)
      | Inr table_row \<Rightarrow>
          (let data_table = data_table @ [table_row];
               (r, st) = frame_of mutations data_table st
           in case r of
                Inl e \<Rightarrow> (Inl e, st)
              | Inr df \<Rightarrow> estimates_lxml_rows mutations rest 1 data_table (Some df) st))"

text \<open>
  The helper. Returning \<^verbatim>\<open>dataframe\<close> when the loop has not run raises
  \<open>UnboundLocalError\<close>.
\<close>

definition get_estimates_lxml ::
  "(string \<Rightarrow> nat) \<Rightarrow> site \<Rightarrow> string \<Rightarrow> string list \<Rightarrow> process \<Rightarrow> (error + frame) \<times> process" where
  "get_estimates_lxml mutations web stock results st =
     (let st = warn ''get_estimates_lxml() functionality now included in get_estimates().'' st;
          url = ''https://www.finanzen.net/schaetzungen/'' @ stock;
          (r, st) = requests_get web url st
      in case r of
           Inl e \<Rightarrow> (Inl e, st)
         | Inr parser \<Rightarrow>
             (let xp_data = heading_table_rows ''h1'' schaetzungen False False False False parser;
                  (r, st) = estimates_lxml_rows mutations xp_data 0 [] None st
              in case r of
                   Inl e \<Rightarrow> (Inl e, st)
                 | Inr None \<Rightarrow> (Inl UnboundLocalError, st)
                 | Inr (Some dataframe) \<Rightarrow> (Inr dataframe, st)))"

subsection \<open>\<^verbatim>\<open>get_fundamentals_lxml\<close>\<close>

text \<open>
  The frame the inner loop builds of one of the nodes the query gives: the strings of
  the header cells, then for every row of a table but the first the strings of its
  cells, with the substitutions in all but the first of them.
\<close>

definition fundamentals_lxml_data :: "node \<Rightarrow> cell list" where
  "fundamentals_lxml_data i =
     (case descend_texts [named ''td''] False i of
        [] \<Rightarrow> []
      | x # xs \<Rightarrow> Str x # map (\<lambda>y. Str (comma_to_dot (remove_dots y))) xs)"

definition fundamentals_lxml_table_data :: "node \<Rightarrow> cell list list" where
  "fundamentals_lxml_table_data data_element =
     (let header_array =
            map Str (descend_texts [named ''table'', named ''thead'', named ''tr'', named ''th'']
                       False data_element)
      in header_array
         # map fundamentals_lxml_data (drop 1 (descend [named ''table'', named ''tr''] data_element)))"

fun fundamentals_lxml_frames ::
  "(string \<Rightarrow> nat) \<Rightarrow> node list \<Rightarrow> frame list \<Rightarrow> process \<Rightarrow> (error + frame list) \<times> process" where
  "fundamentals_lxml_frames mutations [] complete_data_set st = (Inr complete_data_set, st)"
| "fundamentals_lxml_frames mutations (data_element # rest) complete_data_set st =
     (let (r, st) = frame_of mutations (fundamentals_lxml_table_data data_element) st
      in case r of
           Inl e \<Rightarrow> (Inl e, st)
         | Inr dataframe \<Rightarrow>
             fundamentals_lxml_frames mutations rest (complete_data_set @ [dataframe]) st)"

fun fundamentals_lxml_tables ::
  "(string \<Rightarrow> nat) \<Rightarrow> site \<Rightarrow> string \<Rightarrow> string list \<Rightarrow> frame list \<Rightarrow> process
     \<Rightarrow> (error + frame list) \<times> process" where
  "fundamentals_lxml_tables mutations web stock [] complete_data_set st =
     (Inr complete_data_set, st)"
| "fundamentals_lxml_tables mutations web stock (table # tables) complete_data_set st =
     (let (r, st) = get_parser web ''fundamentals'' stock st
      in case r of
           Inl e \<Rightarrow> (Inl e, st)
         | Inr parser \<Rightarrow>
             (let parsed_data_table = heading_parents ''h2'' table False False parser;
                  (r, st) = fundamentals_lxml_frames mutations parsed_data_table
                              complete_data_set st
              in case r of
                   Inl e \<Rightarrow> (Inl e, st)
                 | Inr complete_data_set \<Rightarrow>
                     fundamentals_lxml_tables mutations web stock tables complete_data_set st))"

text \<open>
  The helper. \<^verbatim>\<open>pd.concat(complete_data_set, ignore_index=True)\<close> raises on the empty
  list; the frame it builds otherwise is kept as the list of the frames it is built from.
\<close>

definition get_fundamentals_lxml ::
  "(string \<Rightarrow> nat) \<Rightarrow> site \<Rightarrow> string \<Rightarrow> string list \<Rightarrow> process \<Rightarrow> (error + frame list) \<times> process" where
  "get_fundamentals_lxml mutations web stock results st =
     (let st = warn ''get_fundamentals_lxml() functionality now included in get_fundamentals().'' st;
          tables = [''Die Aktie'', ''Unternehmenskennzahlen'', ''GuV'', ''Bilanz'',
                    ''sonstige Angaben''];
          (r, st) = fundamentals_lxml_tables mutations web stock tables [] st
      in case r of
           Inl e \<Rightarrow> (Inl e, st)
         | Inr complete_data_set \<Rightarrow>
             (let st = pandas mutations ''concat'' st
              in if complete_data_set = [] then (Inl (ValueError No_objects), st)
                 else (Inr complete_data_set, st)))"

subsection \<open>\<^verbatim>\<open>get_current_value_lxml\<close>\<close>

definition data_columns :: "string list" where
  "data_columns = [''name'', ''wkn'', ''isin'', ''symbol'', ''price'', ''currency'',
                   ''chg_to_open'', ''chg_percent'', ''time'', ''exchange'']"

text \<open>The plus-minus sign (code point 177) that the page puts before a change.\<close>

definition remove_plus_minus :: "string \<Rightarrow> string" where
  "remove_plus_minus x = filter (\<lambda>c. c \<noteq> CHR 0xB1) x"

text \<open>
  \<^verbatim>\<open>(wkn, isin) = instrument_id.split(sep='/')\<close> and, if \<^verbatim>\<open>'Symbol' in isin\<close>,
  \<^verbatim>\<open>(isin, sym) = isin.split(sep='Symbol')\<close>: a list of another length than two raises.
\<close>

definition unpack2 :: "string list \<Rightarrow> error + string \<times> string" where
  "unpack2 xs = (case xs of [x, y] \<Rightarrow> Inr (x, y) | _ \<Rightarrow> Inl (ValueError Bad_unpack))"

definition instrument_ids :: "string \<Rightarrow> error + string \<times> string \<times> string" where
  "instrument_ids instrument_id =
     (case unpack2 (py_split ''/'' instrument_id) of
        Inl e \<Rightarrow> Inl e
      | Inr (wkn, isin) \<Rightarrow>
          if contains ''Symbol'' isin
          then (case unpack2 (py_split ''Symbol'' isin) of
                  Inl e \<Rightarrow> Inl e
                | Inr (isin, symbol) \<Rightarrow> Inr (wkn, isin, symbol))
          else Inr (wkn, isin, []))"

text \<open>\<^verbatim>\<open>float(raw[0].replace(',', '.'))\<close>, after \<open>clean\<close> where the code removes a sign.\<close>

definition first_float :: "(string \<Rightarrow> string) \<Rightarrow> string list \<Rightarrow> error + cell" where
  "first_float clean raw =
     (case index raw 0 of
        Inl e \<Rightarrow> Inl e
      | Inr x \<Rightarrow> (case py_float (clean (comma_to_dot x)) of Inl e \<Rightarrow> Inl e | Inr v \<Rightarrow> Inr (Num v)))"

text \<open>
  The body of the loop over the first quote boxes. All its queries start at the root
  of the page, so every round computes the same row. \<^verbatim>\<open>statics.StockMarkets\<close>, a dict of
  dicts of a module that is imported, is a parameter.
\<close>

definition current_value_summary ::
  "(string \<Rightarrow> (string \<Rightarrow> string option) option) \<Rightarrow> node \<Rightarrow> error + cell list" where
  "current_value_summary StockMarkets parser =
     (let raw_price = quotebox_texts ''col-xs-5'' False False False False parser;
          raw_currency = quotebox_texts ''col-xs-5'' True False False False parser;
          raw_change = quotebox_texts ''col-xs-4'' False False False False parser;
          raw_percentage = quotebox_texts ''col-xs-3'' False False False False parser;
          raw_name = descend_texts [\<lambda>x. named ''div'' x \<and> class_contains ''col-sm-5'' x,
                                    named ''h1''] False parser;
          raw_instrument_id =
            descend_texts [\<lambda>x. named ''span'' x \<and> class_contains ''instrument-id'' x] False parser;
          raw_time = quotebox_cell_texts 1 False False parser;
          raw_exchange = quotebox_cell_texts 2 False False parser;
          name = strip (concat raw_name);
          time = strip (concat raw_time);
          exchange = strip (concat raw_exchange);
          instrument_id = strip (concat raw_instrument_id)
      in case instrument_ids instrument_id of
           Inl e \<Rightarrow> Inl e
         | Inr (wkn, isin, symbol) \<Rightarrow>
             (let currency = strip (concat raw_currency)
              in case first_float (\<lambda>x. x) raw_price of
                   Inl e \<Rightarrow> Inl e
                 | Inr price \<Rightarrow>
                     (case first_float remove_plus_minus raw_change of
                        Inl e \<Rightarrow> Inl e
                      | Inr change \<Rightarrow>
                          (case first_float remove_plus_minus raw_percentage of
                             Inl e \<Rightarrow> Inl e
                           | Inr percentage \<Rightarrow>
                               (case StockMarkets exchange of
                                  None \<Rightarrow> Inl KeyError
                                | Some market \<Rightarrow>
                                    (case market ''real_name'' of
                                       None \<Rightarrow> Inl KeyError
                                     | Some real_name \<Rightarrow>
                                         Inr [Str (remove_all ''&nbsp'' name),
                                              Str (remove_all ''WKN:'' (remove_all '' '' wkn)),
                                              Str (remove_all ''ISIN:'' (remove_all '' '' isin)),
                                              Str (remove_all '':'' (remove_all '' '' symbol)),
                                              price,
                                              Str currency,
                                              change,
                                              percentage,
                                              Str time,
                                              Str real_name]))))))"

fun current_value_rows ::
  "(string \<Rightarrow> (string \<Rightarrow> string option) option) \<Rightarrow> node \<Rightarrow> node list \<Rightarrow> cell list
     \<Rightarrow> error + cell list" where
  "current_value_rows StockMarkets parser [] summary_data = Inr summary_data"
| "current_value_rows StockMarkets parser (table_data # rest) summary_data =
     (case current_value_summary StockMarkets parser of
        Inl e \<Rightarrow> Inl e
      | Inr summary_data \<Rightarrow> current_value_rows StockMarkets parser rest summary_data)"

text \<open>
  The helper. \<^verbatim>\<open>pd.DataFrame(data=[summary_data], columns=data_columns)\<close> raises when the
  loop has not run and the row is empty.
\<close>

definition get_current_value_lxml ::
  "(string \<Rightarrow> nat) \<Rightarrow> (string \<Rightarrow> (string \<Rightarrow> string option) option) \<Rightarrow> site \<Rightarrow> string \<Rightarrow> string
     \<Rightarrow> string list \<Rightarrow> process \<Rightarrow> (error + frame) \<times> process" where
  "get_current_value_lxml mutations StockMarkets web stock exchange results st =
     (let st = warn ''get_current_value_lxml() functionality now included in get_price().'' st
      in case StockMarkets exchange of
           None \<Rightarrow> (Inl KeyError, st)
         | Some market \<Rightarrow>
             (case market ''url_postfix'' of
                None \<Rightarrow> (Inl KeyError, st)
              | Some url_postfix \<Rightarrow>
                  (let url = ''https://www.finanzen.net/aktien/'' @ stock @ ''-aktie'' @ url_postfix;
                       (r, st) = requests_get web url st
                   in case r of
                        Inl e \<Rightarrow> (Inl e, st)
                      | Inr parser \<Rightarrow>
                          (let summary_table = first_quoteboxes parser
                           in case current_value_rows StockMarkets parser summary_table [] of
                                Inl e \<Rightarrow> (Inl e, st)
                              | Inr summary_data \<Rightarrow>
                                  (let st = pandas mutations ''DataFrame'' st
                                   in if length summary_data = length data_columns
                                      then (Inr (Frame (map Str data_columns) [summary_data]), st)
                                      else (Inl (ValueError Bad_columns), st))))))"

text \<open>Pages for the three helpers, and a table of stock markets.\<close>

definition page_estimates_lxml :: node where
  "page_estimates_lxml = document
     [Tag ''div'' [''box'', ''table-quotes''] []
        [Tag ''h1'' [] [] [NavigableString (schaetzungen @ '' zu BMW'')],
         Tag ''table'' [] []
           [Tag ''tr'' [] [] [th ''x'', th ''2024'', th ''2025e''],
            Tag ''tr'' [] [] [td [] ''Umsatz'', td [] ''1.234,5 EUR'', td [] ''-'']]]]"

definition page_fundamentals_lxml :: node where
  "page_fundamentals_lxml = document
     [Tag ''div'' [''box'', ''table-quotes''] []
        [Tag ''h2'' [] [] [NavigableString ''GuV''],
         Tag ''table'' [] []
           [Tag ''thead'' [] [] [Tag ''tr'' [] [] [th ''2020'', th ''2021'']],
            Tag ''tbody'' [] []
              [Tag ''tr'' [] [] [td [] ''Umsatz'', td [] ''1.000'', td [] ''1.200,5'']]]]]"

definition page_quote_lxml :: node where
  "page_quote_lxml = document
     [Tag ''div'' [''col-sm-5''] [] [Tag ''h1'' [] [] [NavigableString ''BMW Aktie'']],
      Tag ''span'' [''instrument-id''] []
        [NavigableString ''WKN: 519000 / ISIN: DE0005190003 Symbol: BMW''],
      Tag ''div'' [''row'', ''quotebox''] []
        [Tag ''div'' [''col-xs-5''] []
           [NavigableString ''85,10'', Tag ''span'' [] [] [NavigableString ''EUR'']],
         Tag ''div'' [''col-xs-4''] [] [NavigableString ([CHR 0xB1] @ ''0,00'')],
         Tag ''div'' [''col-xs-3''] [] [NavigableString ''-1,25''],
         Tag ''div'' [] []
           [Tag ''div'' [] [] [NavigableString ''17:35:00''],
            Tag ''div'' [] [] [NavigableString ''TGT'']]]]"

definition markets_sample :: "string \<Rightarrow> (string \<Rightarrow> string option) option" where
  "markets_sample exchange =
     (if exchange = ''TGT''
      then Some (map_of [(''url_postfix'', ''@stBoerse_TGT''), (''real_name'', ''Tradegate'')])
      else None)"

definition no_mutations :: "string \<Rightarrow> nat" where
  "no_mutations call = 0"

definition one_mutation :: "string \<Rightarrow> nat" where
  "one_mutation call = 1"


text \<open>
  A call is independent of the process when its result is the same from any two
  processes and it leaves the default lists as they are.
\<close>

definition stateless :: "(process \<Rightarrow> 'r \<times> process) \<Rightarrow> bool" where
  "stateless call =
     (\<forall>st st'. fst (call st) = fst (call st')
               \<and> results_default (snd (call st)) = results_default st)"

text \<open>A page of search results, for the runs below.\<close>

definition search_result :: "string \<Rightarrow> string \<Rightarrow> string \<Rightarrow> string \<Rightarrow> node" where
  "search_result nm href isin wkn =
     Tag ''tr'' [] []
       [Tag ''td'' [] [] [Tag ''a'' [] [(''href'', href)] [NavigableString nm]],
        td [] isin, td [] wkn]"

definition page_search :: node where
  "page_search = document
     [Tag ''div'' [''table-responsive''] []
        [Tag ''table'' [] []
           [Tag ''tr'' [] [] [th ''Name'', th ''ISIN'', th ''WKN''],
            search_result ''BMW'' ''/aktien/bmw-aktie'' ''DE0005190003'' ''519000'',
            search_result ''BMW Vz'' ''/aktien/bmw_vz-aktie'' ''DE0005190037'' ''519003'']]]"

definition found_sample :: "string \<Rightarrow> (string \<times> string) list" where
  "found_sample term = [(''stock'', ''bmw''), (''index'', ''dax''), (''stock'', ''bmw_vz'')]"

section \<open>Reference notions of the specification\<close>





text \<open>
  What makes an association list a mapping: no key occurs twice. A section of the
  fundamentals is the absent marker or a mapping from metric names to mappings from
  years to optional values.
\<close>

definition is_dict :: "('k \<times> 'v) list \<Rightarrow> bool" where
  "is_dict kvs = distinct (map fst kvs)"

definition is_section :: "table option \<Rightarrow> bool" where
  "is_section v = (case v of None \<Rightarrow> True | Some t \<Rightarrow> is_dict t \<and> (\<forall>d\<in>snd ` set t. is_dict d))"

section \<open>Properties: numeric normalisation\<close>









lemma dropWhile_none: "\<forall>c\<in>set s. \<not> P c \<Longrightarrow> dropWhile P s = s"
  by (cases s) auto

lemma strip_no_space: "\<forall>c\<in>set s. \<not> is_space c \<Longrightarrow> strip s = s"
  by (simp add: strip_def dropWhile_none)













lemmas char_defs = is_digit_def is_space_def is_numeric_space_def digit_val_def lower_char_def
  upper_char_def
  ascii_lower_def ascii_uppercase_def ascii_lowercase_def latin1_uppercase_def
  latin1_lowercase_def

lemmas str_defs = lower_def upper_def strip_def strip_numeric_def endswith_def startswith_def
  split_sign_def dec_def
  signed_def remove_dots_def comma_to_dot_def keep_digits_comma_def

lemmas soup_defs = named_def find_all_def find_class_def find_name_def text_matches_def
  find_text_def find_text_parent_def document_def td_def th_def

text \<open>
  C2. A cell that is exactly \<^verbatim>\<open>-\<close> or exactly \<^verbatim>\<open>< 0 *\<close> becomes the absent marker in the
  fundamentals table, and so does \<^verbatim>\<open>-\<close> in an estimates row; the estimates row turns
  \<^verbatim>\<open>< 0 *\<close> into the float of \<^verbatim>\<open>0\<close>, since only the digit survives the substitution.
\<close>

theorem absent_markers:
  "parse_table_cell ''-'' = Inr None \<and> parse_table_cell ''< 0 *'' = Inr None
     \<and> estimates_cell ''-'' = Inr None \<and> estimates_cell ''< 0 *'' = Inr (Some (Finite 0))"
  by (simp add: parse_table_cell_def float_or_none_def estimates_cell_def py_float_def
      char_defs str_defs)

section \<open>Properties: the parsed page\<close>

text \<open>
  \<open>find_parent\<close> is the parent of what \<^verbatim>\<open>find\<close> returns: it is \<open>None\<close> exactly when no
  node below matches, and otherwise a tag that has the first match, in document order,
  among its children.
\<close>

lemma find_append_cases:
  "List.find P (xs @ ys) = (case List.find P xs of None \<Rightarrow> List.find P ys | Some x \<Rightarrow> Some x)"
  by (induction xs) auto

lemma find_parent_children:
  assumes "\<And>x. x \<in> set cs \<Longrightarrow> parent_of_first P (descendants x) (find_parent P x)"
    and "set cs \<subseteq> set (tag_contents t)" and "is_tag t"
  shows "parent_of_first P (concat (map (\<lambda>x. x # descendants x) cs))
           (first_some (map (\<lambda>x. if P x then Some t else find_parent P x) cs))"
  using assms
proof (induction cs)
  case Nil
  then show ?case by (simp add: parent_of_first_def)
next
  case (Cons c cs)
  then have rest: "parent_of_first P (concat (map (\<lambda>x. x # descendants x) cs))
                     (first_some (map (\<lambda>x. if P x then Some t else find_parent P x) cs))"
    by simp
  from Cons.prems have own: "parent_of_first P (descendants c) (find_parent P c)"
    by simp
  show ?case
  proof (cases "P c")
    case True
    with Cons.prems show ?thesis by (simp add: parent_of_first_def)
  next
    case False
    show ?thesis
    proof (cases "find_parent P c")
      case None
      with False own rest show ?thesis
        by (simp add: parent_of_first_def find_append_cases split: option.splits)
    next
      case (Some p)
      with False own show ?thesis
        by (auto simp: parent_of_first_def find_append_cases)
    qed
  qed
qed

lemma find_parent_find: "parent_of_first P (descendants t) (find_parent P t)"
proof (induction t)
  case (Tag n cl a ch)
  then show ?case
    using find_parent_children [of ch P "Tag n cl a ch"] by simp
next
  case (NavigableString s)
  then show ?case by (simp add: parent_of_first_def)
qed

text \<open>So the table parsers raise \<open>AttributeError\<close> exactly when \<^verbatim>\<open>find\<close> returns \<^verbatim>\<open>None\<close>.\<close>

lemma find_text_parent_raises:
  "find_text_parent t nm pat = Inl e \<longleftrightarrow> e = AttributeError \<and> find_text t nm pat = None"
  using find_parent_find [of "text_matches nm pat" t]
  by (auto simp: find_text_parent_def find_text_def parent_of_first_def split: option.splits)

section \<open>Properties: fundamentals\<close>

lemma sequence_map_raises:
  "sequence (map f xs) = Inl e \<Longrightarrow> \<exists>x\<in>set xs. f x = Inl e"
  by (induction xs) (auto split: sum.splits)

lemma py_float_raises: "py_float x = Inl e \<Longrightarrow> e = ValueError (Bad_float x)"
  by (auto simp: py_float_def Let_def split: if_splits prod.splits list.splits)

lemma py_int_raises: "py_int x = Inl e \<Longrightarrow> e = ValueError (Bad_int x)"
  by (auto simp: py_int_def Let_def split: if_splits prod.splits)

lemma float_or_none_raises: "float_or_none x = Inl e \<Longrightarrow> \<exists>v. e = ValueError v"
  by (auto simp: float_or_none_def split: if_splits sum.splits dest: py_float_raises)

lemma parse_table_row_raises:
  "parse_table_row years row = Inl e \<Longrightarrow> e = AttributeError \<or> (\<exists>v. e = ValueError v)"
  by (auto simp: parse_table_row_def Let_def split: option.splits sum.splits
      dest!: sequence_map_raises float_or_none_raises)

lemma parse_table_rows_raises:
  "parse_table_rows years rows acc = Inl e \<Longrightarrow> e = AttributeError \<or> (\<exists>v. e = ValueError v)"
  by (induction rows arbitrary: acc) (auto split: sum.splits dest: parse_table_row_raises)

text \<open>All that \<^verbatim>\<open>_parse_table\<close> raises is caught by \<^verbatim>\<open>except Exception\<close>.\<close>

lemma parse_table_raises:
  "parse_table soup signaler = Inl e \<Longrightarrow> e = AttributeError \<or> (\<exists>v. e = ValueError v)"
  by (auto simp: parse_table_def find_text_parent_def split: sum.splits option.splits
      dest!: sequence_map_raises py_int_raises parse_table_rows_raises)

lemma is_dict_update: "is_dict d \<Longrightarrow> is_dict (AList.update k v d)"
  by (simp add: is_dict_def distinct_update)

lemma is_dict_fold: "is_dict d \<Longrightarrow> is_dict (fold (\<lambda>(k, v). AList.update k v) kvs d)"
  by (induction kvs arbitrary: d) (auto simp: is_dict_update)

lemma is_dict_dict_of: "is_dict (dict_of kvs)"
proof -
  have "is_dict ([] :: ('a \<times> 'b) list)" by (simp add: is_dict_def)
  then show ?thesis unfolding dict_of_def by (rule is_dict_fold)
qed

lemma set_update_subset: "set (AList.update k v d) \<subseteq> insert (k, v) (set d)"
  by (induction d) auto

lemma parse_table_row_dict: "parse_table_row years row = Inr (n, d) \<Longrightarrow> is_dict d"
  by (auto simp: parse_table_row_def Let_def is_dict_dict_of split: option.splits sum.splits)

lemma parse_table_rows_dict:
  "parse_table_rows years rows acc = Inr t \<Longrightarrow> is_dict acc \<Longrightarrow> \<forall>d\<in>snd ` set acc. is_dict d
     \<Longrightarrow> is_dict t \<and> (\<forall>d\<in>snd ` set t. is_dict d)"
proof (induction rows arbitrary: acc)
  case Nil
  then show ?case by simp
next
  case (Cons row rows)
  from Cons.prems(1) obtain n d where r: "parse_table_row years row = Inr (n, d)"
    and t: "parse_table_rows years rows (AList.update n d acc) = Inr t"
    by (auto split: sum.splits)
  have "\<forall>d'\<in>snd ` set (AList.update n d acc). is_dict d'"
    using set_update_subset [of n d acc] Cons.prems(3) parse_table_row_dict [OF r] by fastforce
  with Cons.IH [OF t] Cons.prems(2) show ?case by (simp add: is_dict_update)
qed

lemma parse_table_dict:
  "parse_table soup signaler = Inr t \<Longrightarrow> is_dict t \<and> (\<forall>d\<in>snd ` set t. is_dict d)"
proof -
  assume "parse_table soup signaler = Inr t"
  then obtain years rows where "parse_table_rows years rows [] = Inr t"
    by (auto simp: parse_table_def split: sum.splits)
  then show ?thesis
    by (rule parse_table_rows_dict) (simp_all add: is_dict_def)
qed

lemma try_except_section: "is_section (try_except (parse_table soup signaler))"
  by (auto simp: is_section_def try_except_def split: sum.splits dest: parse_table_dict)

lemma fundamentals_of_shape:
  "map fst (fundamentals_of soup) =
     [''Quotes'', ''Key Ratios'', ''Income Statement'', ''Balance Sheet'', ''Other'']"
  "list_all is_section (map snd (fundamentals_of soup))"
  by (simp_all add: fundamentals_of_def try_except_section)

lemma parse_table_page_guv:
  "parse_table page_guv ''GuV'' =
     Inr [(''Umsatz'', [(2020, Some (Finite 1000)), (2021, Some (Finite 1200))])]"
  by (simp add: page_guv_def parse_table_def parse_table_row_def dict_of_def float_or_none_def
      py_float_def py_int_def char_defs str_defs soup_defs)

lemma fundamentals_of_page_guv:
  "fundamentals_of page_guv =
     [(''Quotes'', None), (''Key Ratios'', None),
      (''Income Statement'',
       Some [(''Umsatz'', [(2020, Some (Finite 1000)), (2021, Some (Finite 1200))])]),
      (''Balance Sheet'', None), (''Other'', None)]"
proof -
  have "parse_table page_guv s = Inl AttributeError" if "\<not> contains s ''GuV''" for s
    using that by (simp add: page_guv_def parse_table_def soup_defs)
  then show ?thesis
    by (simp add: fundamentals_of_def parse_table_page_guv try_except_def)
qed

text \<open>
  C6. Whenever fundamentals retrieval with the output format \<^verbatim>\<open>dict\<close> returns, it returns
  a dict whose keys are the five category names, in this order, and each value is the
  absent marker or a mapping from metric names to mappings from years to optional values.
\<close>

theorem get_fundamentals_dict_keys:
  assumes "fst (get_fundamentals check_data web stock ''dict'' st) = Inr r"
  shows "\<exists>d. r = Dict d
           \<and> map fst d = [''Quotes'', ''Key Ratios'', ''Income Statement'', ''Balance Sheet'', ''Other'']
           \<and> list_all is_section (map snd d)"
  using assms
  by (auto simp: get_fundamentals_def Let_def fundamentals_of_shape
      split: prod.splits sum.splits if_splits)

theorem get_fundamentals_dict_keys_witness:
  "fst (get_fundamentals any_page (\<lambda>url. Some page_guv) ''BMW-Aktie'' ''dict'' idle)
     = Inr (Dict (fundamentals_of page_guv))
   \<and> (\<exists>d. Dict (fundamentals_of page_guv) = Dict d
           \<and> map fst d = [''Quotes'', ''Key Ratios'', ''Income Statement'', ''Balance Sheet'', ''Other'']
           \<and> list_all is_section (map snd d))"
  using get_fundamentals_dict_keys [of any_page "\<lambda>url. Some page_guv" "''BMW-Aktie''" idle
      "Dict (fundamentals_of page_guv)"]
  by (simp add: get_fundamentals_def make_soup_def requests_get_def any_page_def)

text \<open>
  With the output format \<^verbatim>\<open>dict\<close> a section that cannot be parsed is isolated: on a page
  that is fetched and accepted the call returns, whatever the five sections give.
\<close>

lemma get_fundamentals_dict_returns:
  assumes "web (''https://www.finanzen.net/bilanz_guv/'' @ normalise_stock stock) = Some soup"
    and "check_data soup"
  shows "fst (get_fundamentals check_data web stock ''dict'' st) = Inr (Dict (fundamentals_of soup))"
  using assms by (simp add: get_fundamentals_def make_soup_def requests_get_def)

text \<open>
  With the output format \<^verbatim>\<open>dataframe\<close> the loop over the sections iterates over the
  absent marker and raises.
\<close>

lemma fundamentals_frames_absent:
  "None \<in> snd ` set fundamentals \<Longrightarrow> fundamentals_frames fundamentals = Inl TypeError"
  by (induction fundamentals rule: fundamentals_frames.induct) (auto split: sum.splits)

lemma get_fundamentals_dataframe_raises:
  assumes "web (''https://www.finanzen.net/bilanz_guv/'' @ normalise_stock stock) = Some soup"
    and "check_data soup"
    and "None \<in> snd ` set (fundamentals_of soup)"
  shows "fst (get_fundamentals check_data web stock ''dataframe'' st) = Inl TypeError"
  using assms
  by (simp add: get_fundamentals_def make_soup_def requests_get_def fundamentals_frames_absent)

text \<open>
  C3. On a page whose only section is \<^verbatim>\<open>GuV\<close>, fundamentals retrieval with the output
  format \<^verbatim>\<open>dict\<close> returns the four other sections as the absent marker; with the output
  format \<^verbatim>\<open>dataframe\<close> the same page makes the call raise \<open>TypeError\<close>.
\<close>

theorem get_fundamentals_absent_section:
  "get_fundamentals any_page (\<lambda>url. Some page_guv) ''bmw'' ''dict'' idle
     = (Inr (Dict [(''Quotes'', None), (''Key Ratios'', None),
                  (''Income Statement'',
                   Some [(''Umsatz'', [(2020, Some (Finite 1000)), (2021, Some (Finite 1200))])]),
                  (''Balance Sheet'', None), (''Other'', None)]),
        idle\<lparr>sent := [''https://www.finanzen.net/bilanz_guv/bmw'']\<rparr>)
   \<and> get_fundamentals any_page (\<lambda>url. Some page_guv) ''bmw'' ''dataframe'' idle
     = (Inl TypeError, idle\<lparr>sent := [''https://www.finanzen.net/bilanz_guv/bmw'']\<rparr>)"
  by (simp add: get_fundamentals_def make_soup_def requests_get_def any_page_def
      fundamentals_of_page_guv normalise_stock_def idle_def char_defs str_defs)

section \<open>Properties: estimates\<close>

text \<open>Estimates retrieval has no handler: what the table parser raises, the call raises.\<close>

lemma get_estimates_raises:
  assumes "web (''https://www.finanzen.net/schaetzungen/'' @ normalise_stock stock) = Some soup"
    and "check_data soup"
    and "output \<in> set [''dataframe'', ''dict'']"
    and "estimates_of soup = Inl e"
  shows "fst (get_estimates check_data web stock output st) = Inl e"
  using assms by (auto simp: get_estimates_def make_soup_def requests_get_def)

lemma estimates_of_page_estimates_malformed:
  "estimates_of page_estimates_malformed = Inl IndexError"
  by (simp add: estimates_of_def estimates_table_row_def page_estimates_malformed_def
      schaetzungen_def soup_defs str_defs)

lemma get_estimates_page_estimates_malformed:
  "fst (get_estimates any_page (\<lambda>url. Some page_estimates_malformed) ''bmw'' ''dict'' idle)
     = Inl IndexError"
  using get_estimates_raises [of "\<lambda>url. Some page_estimates_malformed" "''bmw''"
      page_estimates_malformed any_page "''dict''" IndexError idle]
  by (simp add: any_page_def estimates_of_page_estimates_malformed)

lemma get_estimates_page_estimates:
  "fst (get_estimates any_page (\<lambda>url. Some page_estimates) ''bmw'' ''dict'' idle)
     = Inr (Dict [(''Umsatz'', [(''2024'', Some (Finite 0)), (''2025e'', None)])])"
  by (simp add: get_estimates_def make_soup_def requests_get_def any_page_def estimates_of_def
      estimates_table_row_def estimates_cell_def dict_of_def py_float_def page_estimates_def
      schaetzungen_def normalise_stock_def idle_def soup_defs str_defs char_defs)

section \<open>Properties: the stock identifier and the request\<close>

lemma lower_aktie: "lower ''-aktie'' = ''-aktie''"
  by (simp add: lower_def char_defs)

lemma endswith_aktie:
  "endswith s ''-aktie'' \<longleftrightarrow> 6 \<le> length s \<and> drop (length s - 6) s = ''-aktie''"
proof -
  have "length ''-aktie'' = 6" by simp
  then show ?thesis unfolding endswith_def by (simp only:)
qed

lemma endswith_lower:
  assumes "endswith stock ''-aktie''"
  shows "endswith (lower stock) ''-aktie''"
proof -
  from assms have "drop (length stock - 6) stock = ''-aktie''" and "6 \<le> length stock"
    by (simp_all add: endswith_aktie)
  then have "drop (length stock - 6) (lower stock) = lower ''-aktie''"
    by (simp add: lower_def drop_map)
  with \<open>6 \<le> length stock\<close> show ?thesis
    by (simp add: endswith_aktie lower_aktie) (simp add: lower_def)
qed

text \<open>
  For an identifier that ends in \<^verbatim>\<open>-aktie\<close>, the name that goes into the URLs of the
  fundamentals and of the estimates is the identifier in lower case without its last
  six characters.
\<close>

lemma normalise_stock_aktie:
  assumes "endswith stock ''-aktie''"
  shows "normalise_stock stock = lower (take (length stock - 6) stock)"
  using endswith_lower [OF assms]
  by (simp add: normalise_stock_def sub_aktie_end_def) (simp add: lower_def take_map)

lemma get_fundamentals_sent:
  "output \<in> set [''dataframe'', ''dict''] \<Longrightarrow>
     sent (snd (get_fundamentals check_data web stock output st))
       = sent st @ [''https://www.finanzen.net/bilanz_guv/'' @ normalise_stock stock]"
  by (auto simp: get_fundamentals_def make_soup_def requests_get_def Let_def
      split: option.splits sum.splits)

lemma get_estimates_sent:
  "output \<in> set [''dataframe'', ''dict''] \<Longrightarrow>
     sent (snd (get_estimates check_data web stock output st))
       = sent st @ [''https://www.finanzen.net/schaetzungen/'' @ normalise_stock stock]"
  by (auto simp: get_estimates_def make_soup_def requests_get_def Let_def
      split: option.splits sum.splits)

lemma get_price_sent:
  "upper exchange \<in> set exchanges \<Longrightarrow> lower output \<in> set [''dict'', ''dataframe''] \<Longrightarrow>
     sent (snd (get_price exchanges check_data parse_price parse_timestamp web stock exchange
                  output st))
       = sent st @ [price_url (lower stock) (upper exchange)]"
  by (auto simp: get_price_def make_soup_def requests_get_def Let_def
      split: option.splits sum.splits)

text \<open>
  C4, as the code has it. For every stock identifier that ends in \<^verbatim>\<open>-aktie\<close>,
  fundamentals and estimates retrieval put the identifier in lower case and strip the
  suffix before they build the URL of their one request; price retrieval puts the
  identifier in lower case and builds its URL from the whole of it, the suffix included.
\<close>

theorem suffix_stripped_before_url:
  assumes "endswith stock ''-aktie''"
  shows "(output \<in> set [''dataframe'', ''dict''] \<longrightarrow>
            sent (snd (get_fundamentals check_data web stock output st))
              = sent st @ [''https://www.finanzen.net/bilanz_guv/''
                           @ lower (take (length stock - 6) stock)]
          \<and> sent (snd (get_estimates check_data web stock output st))
              = sent st @ [''https://www.finanzen.net/schaetzungen/''
                           @ lower (take (length stock - 6) stock)])
       \<and> (upper exchange \<in> set exchanges \<and> lower output \<in> set [''dict'', ''dataframe''] \<longrightarrow>
            sent (snd (get_price exchanges check_data parse_price parse_timestamp web stock
                         exchange output st))
              = sent st @ [''https://www.finanzen.net/aktien/''
                           @ lower (take (length stock - 6) stock) @ ''-aktie''
                           @ ''@stBoerse_'' @ upper exchange])"
proof -
  from assms have "stock = take (length stock - 6) stock @ ''-aktie''"
    by (metis append_take_drop_id endswith_aktie)
  then have "lower stock = lower (take (length stock - 6) stock) @ lower ''-aktie''"
    by (metis lower_def map_append)
  then have "price_url (lower stock) (upper exchange)
               = ''https://www.finanzen.net/aktien/'' @ lower (take (length stock - 6) stock)
                 @ ''-aktie'' @ ''@stBoerse_'' @ upper exchange"
    by (simp add: price_url_def lower_aktie)
  then show ?thesis
    using get_fundamentals_sent [of "output" check_data web stock st]
      get_estimates_sent [of "output" check_data web stock st]
      get_price_sent [of exchange exchanges "output" check_data parse_price parse_timestamp web
        stock st]
    by (simp only: normalise_stock_aktie [OF assms]) simp
qed

theorem suffix_stripped_before_url_witness:
  "endswith ''bmw-aktie'' ''-aktie''
   \<and> sent (snd (get_fundamentals any_page (\<lambda>url. Some page_guv) ''bmw-aktie'' ''dict'' idle))
       = [''https://www.finanzen.net/bilanz_guv/bmw'']
   \<and> sent (snd (get_estimates any_page (\<lambda>url. Some page_guv) ''bmw-aktie'' ''dict'' idle))
       = [''https://www.finanzen.net/schaetzungen/bmw'']
   \<and> sent (snd (get_price [''FSE''] any_page price_text timestamp_text (\<lambda>url. Some page_guv)
                   ''bmw-aktie'' ''fse'' ''dict'' idle))
       = [''https://www.finanzen.net/aktien/bmw-aktie@stBoerse_FSE'']"
  using suffix_stripped_before_url [of "''bmw-aktie''" "''dict''" any_page
      "\<lambda>url. Some page_guv" idle "''fse''" "[''FSE'']" price_text timestamp_text]
  by (simp add: endswith_def idle_def lower_def upper_def char_defs)

text \<open>
  The claim as it is written fails for price retrieval: the URL requested for
  \<^verbatim>\<open>bmw-aktie\<close> holds the suffix.
\<close>

theorem get_price_keeps_suffix:
  "endswith ''bmw-aktie'' ''-aktie''
   \<and> sent (snd (get_price [''FSE''] any_page price_text timestamp_text (\<lambda>url. Some page_price)
                   ''bmw-aktie'' ''FSE'' ''dict'' idle))
       = [''https://www.finanzen.net/aktien/bmw-aktie@stBoerse_FSE'']
   \<and> ''https://www.finanzen.net/aktien/bmw-aktie@stBoerse_FSE'' \<noteq> price_url ''bmw'' ''FSE''"
  using get_price_sent [of "''FSE''" "[''FSE'']" "''dict''" any_page price_text timestamp_text
      "\<lambda>url. Some page_price" "''bmw-aktie''" idle]
  by (simp add: price_url_def endswith_def idle_def lower_def upper_def char_defs)

section \<open>Properties: price\<close>

text \<open>
  C5. For every exchange code whose upper-case form is not in the allow-list, price
  retrieval raises the invalid-exchange \<open>ValueError\<close> and leaves the process as it was:
  no request has been sent.
\<close>

theorem get_price_invalid_exchange:
  assumes "upper exchange \<notin> set exchanges"
  shows "get_price exchanges check_data parse_price parse_timestamp web stock exchange output st
           = (Inl (ValueError (Bad_exchange (join '', '' exchanges))), st)"
  using assms by (simp add: get_price_def)

theorem get_price_invalid_exchange_witness:
  "upper ''nyse'' \<notin> set [''FSE'', ''TGT'']
   \<and> get_price [''FSE'', ''TGT''] any_page price_text timestamp_text (\<lambda>url. Some page_price)
        ''bmw-aktie'' ''nyse'' ''dict'' idle
       = (Inl (ValueError (Bad_exchange ''FSE, TGT'')), idle)"
  using get_price_invalid_exchange [of "''nyse''" "[''FSE'', ''TGT'']" any_page price_text
      timestamp_text "\<lambda>url. Some page_price" "''bmw-aktie''" "''dict''" idle]
  by (simp add: upper_def char_defs)

lemma price_of_fields:
  "price_of check_data parse_price parse_timestamp soup stock exchange = Inr p
     \<Longrightarrow> Stock p = stock \<and> Exchange p = exchange"
  by (auto simp: price_of_def split: if_splits option.splits sum.splits prod.splits)

lemma price_of_raises:
  "price_of check_data parse_price parse_timestamp soup stock exchange = Inl e
     \<Longrightarrow> e \<noteq> ValueError v"
  by (auto simp: price_of_def split: if_splits option.splits sum.splits prod.splits)

lemma price_of_page_price:
  "price_of any_page price_text timestamp_text page_price stock exchange
     = Inr \<lparr>Price = ''85,10'', Currency = ''EUR'', Timestamp = ''2022-01-03 17:35'',
            Stock = stock, Exchange = exchange\<rparr>"
  by (simp add: price_of_def any_page_def price_text_def timestamp_text_def page_price_def
      soup_defs)

text \<open>
  C10. For every exchange string whose upper-case form is in the allow-list, price
  retrieval does not raise the invalid-exchange error, and the record it returns, in a
  dict or as the one row of a frame, has the upper-case code in its field Exchange.
\<close>

theorem get_price_exchange_upper:
  assumes "upper exchange \<in> set exchanges"
  shows "(\<forall>v. fst (get_price exchanges check_data parse_price parse_timestamp web stock exchange
                    output st) \<noteq> Inl (ValueError (Bad_exchange v)))
       \<and> (\<forall>r. fst (get_price exchanges check_data parse_price parse_timestamp web stock exchange
                      output st) = Inr r
              \<longrightarrow> (\<exists>p. (r = Dict p \<or> r = DataFrame [p]) \<and> Exchange p = upper exchange))"
  using assms
  by (auto simp: get_price_def make_soup_def requests_get_def Let_def
      split: if_splits option.splits sum.splits dest: price_of_fields price_of_raises)

theorem get_price_exchange_upper_witness:
  "upper ''fse'' \<in> set [''FSE'', ''TGT'']
   \<and> fst (get_price [''FSE'', ''TGT''] any_page price_text timestamp_text
            (\<lambda>url. Some page_price) ''BMW-Aktie'' ''fse'' ''dict'' idle)
       = Inr (Dict \<lparr>Price = ''85,10'', Currency = ''EUR'', Timestamp = ''2022-01-03 17:35'',
                     Stock = ''bmw-aktie'', Exchange = ''FSE''\<rparr>)
   \<and> Exchange \<lparr>Price = ''85,10'', Currency = ''EUR'', Timestamp = ''2022-01-03 17:35'',
                 Stock = ''bmw-aktie'', Exchange = ''FSE''\<rparr> = upper ''fse''"
  using get_price_exchange_upper [of "''fse''" "[''FSE'', ''TGT'']" any_page price_text
      timestamp_text "\<lambda>url. Some page_price" "''BMW-Aktie''" "''dict''" idle]
  by (simp add: get_price_def make_soup_def requests_get_def price_of_page_price lower_def
      upper_def char_defs Let_def)

section \<open>Properties: the output format\<close>

text \<open>
  C7, as the code has it. Fundamentals and estimates retrieval called with an output
  format other than \<^verbatim>\<open>dict\<close> and \<^verbatim>\<open>dataframe\<close> raise the invalid-output-format
  \<open>ValueError\<close> and do nothing else. Price retrieval puts the format in lower case first
  and checks the exchange before the format: when the lower-case format is neither
  \<^verbatim>\<open>dict\<close> nor \<^verbatim>\<open>dataframe\<close> it raises a \<open>ValueError\<close> and does nothing else, the
  invalid-output-format error if the exchange is in the allow-list and the
  invalid-exchange error if it is not.
\<close>

theorem invalid_output_format:
  "(output \<notin> set [''dict'', ''dataframe''] \<longrightarrow>
      get_fundamentals check_data web stock output st = (Inl (ValueError Bad_output), st)
      \<and> get_estimates check_data web stock output st = (Inl (ValueError Bad_output), st))
   \<and> (lower output \<notin> set [''dict'', ''dataframe''] \<longrightarrow>
        get_price exchanges check_data parse_price parse_timestamp web stock exchange output st
          = (Inl (ValueError (if upper exchange \<in> set exchanges then Bad_output
                              else Bad_exchange (join '', '' exchanges))), st))"
  by (auto simp: get_fundamentals_def get_estimates_def get_price_def)

theorem invalid_output_format_witness:
  "''json'' \<notin> set [''dict'', ''dataframe''] \<and> lower ''json'' \<notin> set [''dict'', ''dataframe'']
   \<and> get_fundamentals any_page (\<lambda>url. Some page_guv) ''bmw'' ''json'' idle
       = (Inl (ValueError Bad_output), idle)
   \<and> get_estimates any_page (\<lambda>url. Some page_estimates) ''bmw'' ''json'' idle
       = (Inl (ValueError Bad_output), idle)
   \<and> get_price [''FSE'', ''TGT''] any_page price_text timestamp_text (\<lambda>url. Some page_price)
        ''bmw'' ''fse'' ''json'' idle
       = (Inl (ValueError Bad_output), idle)"
  using invalid_output_format [of "''json''" any_page "\<lambda>url. Some page_guv" "''bmw''" idle
      "[''FSE'', ''TGT'']" price_text timestamp_text "''fse''"]
    invalid_output_format [of "''json''" any_page "\<lambda>url. Some page_estimates" "''bmw''" idle
      "[''FSE'', ''TGT'']" price_text timestamp_text "''fse''"]
    invalid_output_format [of "''json''" any_page "\<lambda>url. Some page_price" "''bmw''" idle
      "[''FSE'', ''TGT'']" price_text timestamp_text "''fse''"]
  by (simp add: lower_def upper_def char_defs)

text \<open>
  The claim as it is written fails for price retrieval: the format \<^verbatim>\<open>DICT\<close> is outside
  the two formats, and the call sends its request and returns.
\<close>

theorem get_price_output_upper_case:
  "''DICT'' \<notin> set [''dict'', ''dataframe'']
   \<and> get_price [''FSE'', ''TGT''] any_page price_text timestamp_text (\<lambda>url. Some page_price)
        ''bmw-aktie'' ''FSE'' ''DICT'' idle
       = (Inr (Dict \<lparr>Price = ''85,10'', Currency = ''EUR'', Timestamp = ''2022-01-03 17:35'',
                      Stock = ''bmw-aktie'', Exchange = ''FSE''\<rparr>),
          idle\<lparr>sent := [''https://www.finanzen.net/aktien/bmw-aktie@stBoerse_FSE'']\<rparr>)"
  by (simp add: get_price_def make_soup_def requests_get_def price_of_page_price price_url_def
      idle_def lower_def upper_def char_defs Let_def)

section \<open>Properties: search\<close>

lemma sequence_map_returns:
  "list_all (\<lambda>x. \<exists>r. f x = Inr r) xs \<Longrightarrow> \<exists>rs. sequence (map f xs) = Inr rs \<and> map Inr rs = map f xs"
  by (induction xs) auto

lemma sequence_returns: "sequence rs = Inr vs \<Longrightarrow> map Inr vs = rs"
  by (induction rs arbitrary: vs) (auto split: sum.splits)

lemma search_row_returns:
  "3 \<le> length (find_all row ''td'') \<Longrightarrow> \<exists>r. search_row row = Inr r"
  by (simp add: search_row_def index_def Let_def)

text \<open>With a negative limit the loop appends every row it is given.\<close>

lemma search_stock_rows_unlimited:
  "limit < 0 \<Longrightarrow> skip \<noteq> 0 \<Longrightarrow>
     search_stock_rows els skip limit df =
       (case sequence (map search_row els) of Inl e \<Rightarrow> Inl e | Inr rows \<Rightarrow> Inr (df @ rows))"
  by (induction els arbitrary: df) (auto split: sum.splits)

text \<open>With the limit zero the loop appends nothing.\<close>

lemma search_stock_rows_zero:
  "search_stock_rows els skip 0 df = Inr df' \<Longrightarrow> df' = df"
  by (induction els arbitrary: skip) (auto split: sum.splits if_splits)

text \<open>With a positive limit the loop appends at most that many rows.\<close>

lemma search_stock_rows_limited:
  "0 \<le> limit \<Longrightarrow> search_stock_rows els skip limit df = Inr df'
     \<Longrightarrow> length df' \<le> length df + nat limit"
proof (induction els skip limit df rule: search_stock_rows.induct)
  case (1 skip_first_element limit df)
  then show ?case by simp
next
  case (2 table_element rest skip_first_element limit df)
  show ?case
  proof (cases "skip_first_element = 0")
    case True
    with 2 show ?thesis by simp
  next
    case False
    with "2.prems" obtain row where row: "search_row table_element = Inr row"
      by (auto split: sum.splits)
    show ?thesis
    proof (cases "limit = 0")
      case True
      with "2.prems" False row show ?thesis by simp
    next
      case pos: False
      with "2.prems" have l: "limit > 0" by simp
      with "2.prems" False row
      have "search_stock_rows rest skip_first_element (limit - 1) (df @ [row]) = Inr df'"
        by simp
      with "2.IH"(2) [OF False row pos l] l
      have "length df' \<le> length (df @ [row]) + nat (limit - 1)" by simp
      with l show ?thesis by simp
    qed
  qed
qed

lemma get_parser_search:
  assumes "web base_url = Some home"
    and "web (base_url @ ''/suchergebnis.asp?_search='' @ stock) = Some parser"
  shows "fst (get_parser web ''search'' stock st) = Inr parser"
  using assms
  by (simp add: get_parser_def functions_dict_def check_site_availability_def requests_get_def)

text \<open>
  Whatever the table holds, a frame that \<^verbatim>\<open>search_stock_lxml\<close> returns has the row of
  every result when the limit is negative, no row when the limit is zero, and at most
  as many rows as a positive limit says.
\<close>

lemma search_stock_lxml_returned:
  assumes "fst (search_stock_lxml web stock limit st) = Inr df"
  shows "\<exists>parser. fst (get_parser web ''search'' stock st) = Inr parser
           \<and> (limit < 0 \<longrightarrow> map Inr df = map search_row (drop 1 (xpath_table_rows parser)))
           \<and> (limit = 0 \<longrightarrow> df = [])
           \<and> (0 \<le> limit \<longrightarrow> length df \<le> nat limit)"
proof -
  obtain r st' where g: "get_parser web ''search'' stock st = (r, st')"
    by (cases "get_parser web ''search'' stock st")
  with assms obtain parser where p: "r = Inr parser"
    by (cases r) (simp_all add: search_stock_lxml_def)
  with assms g obtain r0 rest where rows: "xpath_table_rows parser = r0 # rest"
    by (cases "xpath_table_rows parser") (simp_all add: search_stock_lxml_def)
  with assms g p have run: "search_stock_rows rest 1 limit [] = Inr df"
    by (simp add: search_stock_lxml_def)
  have "map Inr df = map search_row rest" if "limit < 0"
    using run that sequence_returns [of "map search_row rest"]
    by (auto simp: search_stock_rows_unlimited split: sum.splits)
  moreover have "df = []" if "limit = 0"
    using run that search_stock_rows_zero by blast
  moreover have "length df \<le> nat limit" if "0 \<le> limit"
    using search_stock_rows_limited [OF that run] by simp
  ultimately show ?thesis
    using g p rows by simp
qed

text \<open>
  C8. Stock search honours the limit. For \<^verbatim>\<open>search_stock\<close>, over the search operation
  as the specification describes it: a negative limit returns every result of the
  category \<^verbatim>\<open>stock\<close>, the limit zero returns none. For \<^verbatim>\<open>search_stock_lxml\<close>, on a
  result table that is fetched, has a row and whose result rows have three cells or more:
  a negative limit returns a frame with the row of every result after the first table
  row, in their order, and the limit zero returns a frame without rows.
\<close>

theorem search_honours_limit:
  assumes "web base_url = Some home"
    and "web (base_url @ ''/suchergebnis.asp?_search='' @ stock) = Some parser"
    and "xpath_table_rows parser \<noteq> []"
    and "list_all (\<lambda>row. 3 \<le> length (find_all row ''td'')) (drop 1 (xpath_table_rows parser))"
  shows "(limit < 0 \<longrightarrow>
            search_stock found stock limit
              = map snd (filter (\<lambda>(c, r). c = ''stock'') (found stock))
          \<and> (\<exists>df. fst (search_stock_lxml web stock limit st) = Inr df
                   \<and> map Inr df = map search_row (drop 1 (xpath_table_rows parser))))
       \<and> search_stock found stock 0 = []
       \<and> fst (search_stock_lxml web stock 0 st) = Inr []"
proof -
  obtain r0 rest where rows: "xpath_table_rows parser = r0 # rest"
    using assms(3) by (cases "xpath_table_rows parser") auto
  from assms(4) rows have "\<forall>row\<in>set rest. 3 \<le> length (find_all row ''td'')"
    by (simp add: list_all_iff)
  then have "\<forall>row\<in>set rest. \<exists>r. search_row row = Inr r"
    using search_row_returns by blast
  then have ok: "list_all (\<lambda>row. \<exists>r. search_row row = Inr r) rest"
    unfolding list_all_iff .
  have run: "fst (search_stock_lxml web stock l st) = search_stock_rows rest 1 l []" for l
    using get_parser_search [OF assms(1,2), of st] rows
    by (cases "get_parser web ''search'' stock st") (simp add: search_stock_lxml_def)
  have unlimited: "\<exists>df. fst (search_stock_lxml web stock limit st) = Inr df
                     \<and> map Inr df = map search_row (drop 1 (xpath_table_rows parser))"
    if "limit < 0"
  proof -
    from sequence_map_returns [OF ok] obtain rs
      where "sequence (map search_row rest) = Inr rs" "map Inr rs = map search_row rest"
      by blast
    with that rows show ?thesis
      by (simp add: run search_stock_rows_unlimited)
  qed
  have zero: "fst (search_stock_lxml web stock 0 st) = Inr []"
    using ok by (cases rest) (auto simp: run)
  show ?thesis
    using unlimited zero by (simp add: search_stock_def search_def)
qed

lemma xpath_table_rows_page_search:
  "xpath_table_rows page_search =
     [Tag ''tr'' [] [] [th ''Name'', th ''ISIN'', th ''WKN''],
      search_result ''BMW'' ''/aktien/bmw-aktie'' ''DE0005190003'' ''519000'',
      search_result ''BMW Vz'' ''/aktien/bmw_vz-aktie'' ''DE0005190037'' ''519003'']"
  by (simp add: xpath_table_rows_def page_search_def table_div_def search_result_def soup_defs)

lemma search_row_search_result:
  "search_row (search_result ''BMW'' ''/aktien/bmw-aktie'' ''DE0005190003'' ''519000'')
     = Inr (''BMW'', ''bmw'', ''DE0005190003'', ''519000'')"
  "search_row (search_result ''BMW Vz'' ''/aktien/bmw_vz-aktie'' ''DE0005190037'' ''519003'')
     = Inr (''BMW Vz'', ''bmw_vz'', ''DE0005190037'', ''519003'')"
  by (simp_all add: search_row_def search_result_def index_def hrefs_def strip_def is_space_def
      soup_defs)

theorem search_honours_limit_witness:
  "(-1 :: int) < 0
   \<and> xpath_table_rows page_search \<noteq> []
   \<and> list_all (\<lambda>row. 3 \<le> length (find_all row ''td'')) (drop 1 (xpath_table_rows page_search))
   \<and> search_stock found_sample ''bmw'' (-1) = [''bmw'', ''bmw_vz'']
   \<and> fst (search_stock_lxml (\<lambda>url. Some page_search) ''bmw'' (-1) idle)
       = Inr [(''BMW'', ''bmw'', ''DE0005190003'', ''519000''),
              (''BMW Vz'', ''bmw_vz'', ''DE0005190037'', ''519003'')]
   \<and> search_stock found_sample ''bmw'' 0 = []
   \<and> fst (search_stock_lxml (\<lambda>url. Some page_search) ''bmw'' 0 idle) = Inr []"
proof -
  have cells: "list_all (\<lambda>row. 3 \<le> length (find_all row ''td''))
                 (drop 1 (xpath_table_rows page_search))"
    by (simp add: xpath_table_rows_page_search search_result_def soup_defs)
  have rows: "xpath_table_rows page_search \<noteq> []"
    by (simp add: xpath_table_rows_page_search)
  from search_honours_limit [of "\<lambda>url. Some page_search" page_search "''bmw''" page_search
      "-1" found_sample idle, OF refl refl rows cells]
  show ?thesis
    using cells rows
    by (auto simp: xpath_table_rows_page_search search_row_search_result found_sample_def)
qed

section \<open>Properties: independence of the process\<close>

lemma requests_get_result:
  "fst (requests_get web url st) = fst (requests_get web url st')"
  "results_default (snd (requests_get web url st)) = results_default st"
  by (simp_all add: requests_get_def)

lemma warn_defaults: "results_default (warn message st) = results_default st"
  by (simp add: warn_def Let_def)

lemma pandas_defaults: "results_default (pandas mutations call st) = results_default st"
  by (simp add: pandas_def)

lemma check_site_availability_result:
  "fst (check_site_availability web url st) = fst (check_site_availability web url st')"
  "results_default (snd (check_site_availability web url st)) = results_default st"
  by (simp_all add: check_site_availability_def requests_get_def split: option.splits)

lemma get_parser_result:
  "fst (get_parser web function stock_name st) = fst (get_parser web function stock_name st')"
  "results_default (snd (get_parser web function stock_name st)) = results_default st"
  by (simp_all add: get_parser_def check_site_availability_def requests_get_def
      split: option.splits)

lemma frame_of_result:
  "fst (frame_of mutations data_table st) = fst (frame_of mutations data_table st')"
  "results_default (snd (frame_of mutations data_table st)) = results_default st"
  by (simp_all add: frame_of_def pandas_def Let_def split: list.splits)

lemma estimates_lxml_rows_result:
  "fst (estimates_lxml_rows mutations xs header_row data_table dataframe st)
     = fst (estimates_lxml_rows mutations xs header_row data_table dataframe st')"
  "results_default (snd (estimates_lxml_rows mutations xs header_row data_table dataframe st))
     = results_default st"
proof (induction xs arbitrary: header_row data_table dataframe st st')
  case Nil
  {
    case 1 show ?case by simp
  next
    case 2 show ?case by simp
  }
next
  case (Cons x xs)
  {
    case 1
    show ?case
    proof (cases "estimates_lxml_row header_row x")
      case (Inl e)
      then show ?thesis by simp
    next
      case (Inr table_row)
      obtain r s where f: "frame_of mutations (data_table @ [table_row]) st = (r, s)"
        by (cases "frame_of mutations (data_table @ [table_row]) st")
      obtain r' s' where f': "frame_of mutations (data_table @ [table_row]) st' = (r', s')"
        by (cases "frame_of mutations (data_table @ [table_row]) st'")
      from f f' frame_of_result(1) [of mutations "data_table @ [table_row]" st st']
      have "r' = r" by simp
      with Inr f f' Cons.IH(1) [of 1 "data_table @ [table_row]" _ s s'] show ?thesis
        by (cases r) simp_all
    qed
  next
    case 2
    show ?case
    proof (cases "estimates_lxml_row header_row x")
      case (Inl e)
      then show ?thesis by simp
    next
      case (Inr table_row)
      obtain r s where f: "frame_of mutations (data_table @ [table_row]) st = (r, s)"
        by (cases "frame_of mutations (data_table @ [table_row]) st")
      with frame_of_result(2) [of mutations "data_table @ [table_row]" st]
      have "results_default s = results_default st" by simp
      with Inr f Cons.IH(2) [of 1 "data_table @ [table_row]" _ s] show ?thesis
        by (cases r) simp_all
    qed
  }
qed

lemma fundamentals_lxml_frames_result:
  "fst (fundamentals_lxml_frames mutations xs acc st)
     = fst (fundamentals_lxml_frames mutations xs acc st')"
  "results_default (snd (fundamentals_lxml_frames mutations xs acc st)) = results_default st"
proof (induction xs arbitrary: acc st st')
  case Nil
  {
    case 1 show ?case by simp
  next
    case 2 show ?case by simp
  }
next
  case (Cons x xs)
  let ?t = "fundamentals_lxml_table_data x"
  {
    case 1
    obtain r s where f: "frame_of mutations ?t st = (r, s)"
      by (cases "frame_of mutations ?t st")
    obtain r' s' where f': "frame_of mutations ?t st' = (r', s')"
      by (cases "frame_of mutations ?t st'")
    from f f' frame_of_result(1) [of mutations ?t st st'] have "r' = r" by simp
    with f f' Cons.IH(1) [of _ s s'] show ?case
      by (cases r) simp_all
  next
    case 2
    obtain r s where f: "frame_of mutations ?t st = (r, s)"
      by (cases "frame_of mutations ?t st")
    with frame_of_result(2) [of mutations ?t st]
    have "results_default s = results_default st" by simp
    with f Cons.IH(2) [of _ s] show ?case
      by (cases r) simp_all
  }
qed

lemma fundamentals_lxml_tables_result:
  "fst (fundamentals_lxml_tables mutations web stock tables acc st)
     = fst (fundamentals_lxml_tables mutations web stock tables acc st')"
  "results_default (snd (fundamentals_lxml_tables mutations web stock tables acc st))
     = results_default st"
proof (induction tables arbitrary: acc st st')
  case Nil
  {
    case 1 show ?case by simp
  next
    case 2 show ?case by simp
  }
next
  case (Cons table tables)
  {
    case 1
    obtain r s where g: "get_parser web ''fundamentals'' stock st = (r, s)"
      by (cases "get_parser web ''fundamentals'' stock st")
    obtain r' s' where g': "get_parser web ''fundamentals'' stock st' = (r', s')"
      by (cases "get_parser web ''fundamentals'' stock st'")
    from g g' get_parser_result(1) [of web "''fundamentals''" stock st st'] have eq: "r' = r"
      by simp
    show ?case
    proof (cases r)
      case (Inl e)
      with g g' eq show ?thesis by simp
    next
      case (Inr parser)
      let ?p = "heading_parents ''h2'' table False False parser"
      obtain q t where f: "fundamentals_lxml_frames mutations ?p acc s = (q, t)"
        by (cases "fundamentals_lxml_frames mutations ?p acc s")
      obtain q' t' where f': "fundamentals_lxml_frames mutations ?p acc s' = (q', t')"
        by (cases "fundamentals_lxml_frames mutations ?p acc s'")
      from f f' fundamentals_lxml_frames_result(1) [of mutations ?p acc s s']
      have "q' = q" by simp
      with Inr g g' eq f f' Cons.IH(1) [of _ t t'] show ?thesis
        by (cases q) simp_all
    qed
  next
    case 2
    obtain r s where g: "get_parser web ''fundamentals'' stock st = (r, s)"
      by (cases "get_parser web ''fundamentals'' stock st")
    with get_parser_result(2) [of web "''fundamentals''" stock st]
    have d: "results_default s = results_default st" by simp
    show ?case
    proof (cases r)
      case (Inl e)
      with g d show ?thesis by simp
    next
      case (Inr parser)
      let ?p = "heading_parents ''h2'' table False False parser"
      obtain q t where f: "fundamentals_lxml_frames mutations ?p acc s = (q, t)"
        by (cases "fundamentals_lxml_frames mutations ?p acc s")
      with fundamentals_lxml_frames_result(2) [of mutations ?p acc s] d
      have "results_default t = results_default st" by simp
      with Inr g f Cons.IH(2) [of _ t] show ?thesis
        by (cases q) simp_all
    qed
  }
qed

text \<open>
  The three helpers read the argument \<^verbatim>\<open>results\<close> and the process for nothing they
  return: the result is the same for any two lists and from any two processes, whatever
  their registry and the version of their filters, and the default lists stay.
\<close>

lemma get_estimates_lxml_result:
  "fst (get_estimates_lxml mutations web stock results st)
     = fst (get_estimates_lxml mutations web stock results' st')"
  "results_default (snd (get_estimates_lxml mutations web stock results st)) = results_default st"
proof -
  let ?url = "''https://www.finanzen.net/schaetzungen/'' @ stock"
  let ?w = "warn ''get_estimates_lxml() functionality now included in get_estimates().''"
  obtain r s where g: "requests_get web ?url (?w st) = (r, s)"
    by (cases "requests_get web ?url (?w st)")
  obtain r' s' where g': "requests_get web ?url (?w st') = (r', s')"
    by (cases "requests_get web ?url (?w st')")
  from g g' requests_get_result(1) [of web ?url "?w st" "?w st'"] have eq: "r' = r" by simp
  from g requests_get_result(2) [of web ?url "?w st"]
  have d: "results_default s = results_default st" by (simp add: warn_defaults)
  show "fst (get_estimates_lxml mutations web stock results st)
          = fst (get_estimates_lxml mutations web stock results' st')"
  proof (cases r)
    case (Inl e)
    with g g' eq show ?thesis by (simp add: get_estimates_lxml_def)
  next
    case (Inr parser)
    let ?rows = "heading_table_rows ''h1'' schaetzungen False False False False parser"
    obtain q t where f: "estimates_lxml_rows mutations ?rows 0 [] None s = (q, t)"
      by (cases "estimates_lxml_rows mutations ?rows 0 [] None s")
    obtain q' t' where f': "estimates_lxml_rows mutations ?rows 0 [] None s' = (q', t')"
      by (cases "estimates_lxml_rows mutations ?rows 0 [] None s'")
    from f f' estimates_lxml_rows_result(1) [of mutations ?rows 0 "[]" None s s']
    have "q' = q" by simp
    with Inr g g' eq f f' show ?thesis
      by (simp add: get_estimates_lxml_def split: sum.splits option.splits)
  qed
  show "results_default (snd (get_estimates_lxml mutations web stock results st))
          = results_default st"
  proof (cases r)
    case (Inl e)
    with g d show ?thesis by (simp add: get_estimates_lxml_def)
  next
    case (Inr parser)
    let ?rows = "heading_table_rows ''h1'' schaetzungen False False False False parser"
    obtain q t where f: "estimates_lxml_rows mutations ?rows 0 [] None s = (q, t)"
      by (cases "estimates_lxml_rows mutations ?rows 0 [] None s")
    with estimates_lxml_rows_result(2) [of mutations ?rows 0 "[]" None s] d
    have "results_default t = results_default st" by simp
    with Inr g f show ?thesis
      by (simp add: get_estimates_lxml_def split: sum.splits option.splits)
  qed
qed

lemma get_fundamentals_lxml_result:
  "fst (get_fundamentals_lxml mutations web stock results st)
     = fst (get_fundamentals_lxml mutations web stock results' st')"
  "results_default (snd (get_fundamentals_lxml mutations web stock results st))
     = results_default st"
proof -
  let ?w = "warn ''get_fundamentals_lxml() functionality now included in get_fundamentals().''"
  let ?run = "\<lambda>s. fundamentals_lxml_tables mutations web stock
                      [''Die Aktie'', ''Unternehmenskennzahlen'', ''GuV'', ''Bilanz'',
                       ''sonstige Angaben''] [] (?w s)"
  obtain r s where run: "?run st = (r, s)" by (cases "?run st")
  obtain r' s' where run': "?run st' = (r', s')" by (cases "?run st'")
  have "fst (?run st) = fst (?run st')"
    by (rule fundamentals_lxml_tables_result(1))
  with run run' have "r' = r" by simp
  with run run' show "fst (get_fundamentals_lxml mutations web stock results st)
                        = fst (get_fundamentals_lxml mutations web stock results' st')"
    by (cases r) (simp_all add: get_fundamentals_lxml_def Let_def
        del: fundamentals_lxml_tables.simps)
  have "results_default (snd (?run st)) = results_default st"
    by (simp only: fundamentals_lxml_tables_result(2) warn_defaults)
  with run show "results_default (snd (get_fundamentals_lxml mutations web stock results st))
                   = results_default st"
    by (cases r) (simp_all add: get_fundamentals_lxml_def Let_def pandas_defaults
        del: fundamentals_lxml_tables.simps)
qed

lemma get_current_value_lxml_result:
  "fst (get_current_value_lxml mutations StockMarkets web stock exchange results st)
     = fst (get_current_value_lxml mutations StockMarkets web stock exchange results' st')"
  "results_default (snd (get_current_value_lxml mutations StockMarkets web stock exchange
                           results st))
     = results_default st"
  by (simp_all add: get_current_value_lxml_def requests_get_def warn_def pandas_def Let_def
      split: option.splits sum.splits)

lemma search_stock_lxml_result:
  "fst (search_stock_lxml web stock limit st) = fst (search_stock_lxml web stock limit st')"
  "results_default (snd (search_stock_lxml web stock limit st)) = results_default st"
proof -
  obtain r s where g: "get_parser web ''search'' stock st = (r, s)"
    by (cases "get_parser web ''search'' stock st")
  obtain r' s' where g': "get_parser web ''search'' stock st' = (r', s')"
    by (cases "get_parser web ''search'' stock st'")
  from g g' get_parser_result(1) [of web "''search''" stock st st'] have "r' = r"
    by simp
  with g g' show "fst (search_stock_lxml web stock limit st)
                    = fst (search_stock_lxml web stock limit st')"
    by (simp add: search_stock_lxml_def Let_def split: sum.splits)
  from g get_parser_result(2) [of web "''search''" stock st]
  show "results_default (snd (search_stock_lxml web stock limit st)) = results_default st"
    by (simp add: search_stock_lxml_def Let_def split: sum.splits)
qed

text \<open>
  The predicate tells calls apart: a call that appended to its default list and returned
  it would not be independent of the process.
\<close>

lemma stateless_excludes_shared_default:
  "\<not> stateless (\<lambda>st. (results_default st ''f'' @ [''x''],
                        st\<lparr>results_default := (results_default st)
                                                 (''f'' := results_default st ''f'' @ [''x''])\<rparr>))"
proof
  let ?call = "\<lambda>st. (results_default st ''f'' @ [''x''],
                       st\<lparr>results_default := (results_default st)
                                                (''f'' := results_default st ''f'' @ [''x''])\<rparr>)"
  assume "stateless ?call"
  then have "results_default (snd (?call idle)) = results_default idle"
    unfolding stateless_def by blast
  then have "results_default (snd (?call idle)) ''f'' = results_default idle ''f''"
    by (rule arg_cong)
  then show False by (simp add: idle_def)
qed

text \<open>
  The process does change under the helpers: the first call prints the warning, a
  second call prints it again exactly when pandas has changed the filters in between.
  The frame returned is the same.
\<close>

lemma warn_once:
  "shown (warn m (warn m idle)) = [m]"
  by (simp add: warn_def idle_def Let_def)

lemma warn_again_after_pandas:
  "shown (warn m (pandas one_mutation ''DataFrame'' (warn m idle))) = [m, m]"
  by (simp add: warn_def pandas_def one_mutation_def idle_def Let_def)

text \<open>The helpers on the sample pages.\<close>

lemmas xpath_defs = class_attr_def class_contains_def first_text_def box_table_quotes_def
  heading_def quotebox_def index_def

lemma heading_table_rows_page_estimates_lxml:
  "heading_table_rows ''h1'' schaetzungen False False False False page_estimates_lxml
     = [Tag ''tr'' [] [] [th ''x'', th ''2024'', th ''2025e''],
        Tag ''tr'' [] [] [td [] ''Umsatz'', td [] ''1.234,5 EUR'', td [] ''-'']]"
  by (simp add: page_estimates_lxml_def schaetzungen_def xpath_defs soup_defs Let_def)

lemma estimates_lxml_row_header:
  "estimates_lxml_row 0 (Tag ''tr'' [] [] [th ''x'', th ''2024'', th ''2025e''])
     = Inr [Str ''Estimation'', Str ''2024'', Str ''2025e'']"
  by (simp add: estimates_lxml_row_def xpath_defs soup_defs)

lemma estimates_lxml_row_data:
  "estimates_lxml_row 1 (Tag ''tr'' [] [] [td [] ''Umsatz'', td [] ''1.234,5 EUR'', td [] ''-''])
     = Inr [Str ''Umsatz'', Num (Finite (2469 / 2)), Str ''-'']"
  by (simp add: estimates_lxml_row_def estimates_lxml_cell_def py_float_def xpath_defs
      soup_defs str_defs char_defs)

lemma get_estimates_lxml_page_estimates_lxml:
  "fst (get_estimates_lxml mutations (\<lambda>url. Some page_estimates_lxml) ''bmw'' results st)
     = Inr (Frame [Str ''Estimation'', Str ''2024'', Str ''2025e'']
              [[Str ''Umsatz'', Num (Finite (2469 / 2)), Str ''-'']])"
  by (simp add: get_estimates_lxml_def requests_get_def frame_of_def
      heading_table_rows_page_estimates_lxml estimates_lxml_row_header estimates_lxml_row_data
      Let_def)

lemma get_estimates_lxml_twice:
  "shown (snd (get_estimates_lxml no_mutations (\<lambda>url. Some page_estimates_lxml) ''bmw'' []
           (snd (get_estimates_lxml no_mutations (\<lambda>url. Some page_estimates_lxml) ''bmw'' []
              idle))))
     = [''get_estimates_lxml() functionality now included in get_estimates().'']"
  by (simp add: get_estimates_lxml_def requests_get_def frame_of_def pandas_def warn_def
      no_mutations_def idle_def
      heading_table_rows_page_estimates_lxml estimates_lxml_row_header estimates_lxml_row_data
      Let_def)

lemma get_estimates_lxml_twice_pandas:
  "shown (snd (get_estimates_lxml one_mutation (\<lambda>url. Some page_estimates_lxml) ''bmw'' []
           (snd (get_estimates_lxml one_mutation (\<lambda>url. Some page_estimates_lxml) ''bmw'' []
              idle))))
     = [''get_estimates_lxml() functionality now included in get_estimates().'',
        ''get_estimates_lxml() functionality now included in get_estimates().'']"
  by (simp add: get_estimates_lxml_def requests_get_def frame_of_def pandas_def warn_def
      one_mutation_def idle_def
      heading_table_rows_page_estimates_lxml estimates_lxml_row_header estimates_lxml_row_data
      Let_def)

lemma get_estimates_lxml_page_estimates:
  "fst (get_estimates_lxml mutations (\<lambda>url. Some page_estimates) ''bmw'' results st)
     = Inl UnboundLocalError"
  by (simp add: get_estimates_lxml_def requests_get_def page_estimates_def schaetzungen_def
      xpath_defs soup_defs Let_def)

lemma heading_parents_page_fundamentals_lxml:
  "map tag_name (heading_parents ''h2'' ''GuV'' False False page_fundamentals_lxml)
     = [''div'', ''h2'']"
  "heading_parents ''h2'' ''Bilanz'' False False page_fundamentals_lxml = []"
  by (simp_all add: page_fundamentals_lxml_def xpath_defs soup_defs Let_def)


lemma fundamentals_lxml_table_data_example:
  "fundamentals_lxml_table_data
     (Tag ''div'' [''box'', ''table-quotes''] []
        [Tag ''h2'' [] [] [NavigableString ''GuV''],
         Tag ''table'' [] []
           [Tag ''thead'' [] [] [Tag ''tr'' [] [] [th ''2020'', th ''2021'']],
            Tag ''tbody'' [] []
              [Tag ''tr'' [] [] [td [] ''Umsatz'', td [] ''1.000'', td [] ''1.200,5'']]]])
     = [[Str ''2020'', Str ''2021''], [Str ''Umsatz'', Str ''1000'', Str ''1200.5'']]"
  by (simp add: fundamentals_lxml_table_data_def fundamentals_lxml_data_def soup_defs str_defs)

lemma current_value_summary_page_quote_lxml:
  "current_value_summary markets_sample page_quote_lxml
     = Inr [Str ''BMW Aktie'', Str ''519000'', Str ''DE0005190003'', Str ''BMW'',
            Num (Finite (851 / 10)), Str ''EUR'', Num (Finite 0), Num (Finite (- (5 / 4))),
            Str ''17:35:00'', Str ''Tradegate'']"
  by (simp add: current_value_summary_def instrument_ids_def unpack2_def py_split_def
      first_float_def remove_plus_minus_def py_float_def markets_sample_def page_quote_lxml_def
      xpath_defs soup_defs str_defs char_defs Let_def)

lemma get_current_value_lxml_page_quote_lxml:
  "fst (get_current_value_lxml mutations markets_sample (\<lambda>url. Some page_quote_lxml) ''bmw''
          ''TGT'' results st)
     = Inr (Frame (map Str data_columns)
              [[Str ''BMW Aktie'', Str ''519000'', Str ''DE0005190003'', Str ''BMW'',
                Num (Finite (851 / 10)), Str ''EUR'', Num (Finite 0), Num (Finite (- (5 / 4))),
                Str ''17:35:00'', Str ''Tradegate'']])"
proof -
  have "first_quoteboxes page_quote_lxml \<noteq> []"
    by (simp add: page_quote_lxml_def xpath_defs soup_defs)
  then obtain b bs where "first_quoteboxes page_quote_lxml = b # bs"
    by (cases "first_quoteboxes page_quote_lxml") auto
  moreover have "current_value_rows markets_sample page_quote_lxml bs
      [Str ''BMW Aktie'', Str ''519000'', Str ''DE0005190003'', Str ''BMW'',
            Num (Finite (851 / 10)), Str ''EUR'', Num (Finite 0), Num (Finite (- (5 / 4))),
            Str ''17:35:00'', Str ''Tradegate'']
     = Inr [Str ''BMW Aktie'', Str ''519000'', Str ''DE0005190003'', Str ''BMW'',
            Num (Finite (851 / 10)), Str ''EUR'', Num (Finite 0), Num (Finite (- (5 / 4))),
            Str ''17:35:00'', Str ''Tradegate'']"
    by (induction bs) (simp_all add: current_value_summary_page_quote_lxml)
  ultimately show ?thesis
    by (simp add: get_current_value_lxml_def requests_get_def markets_sample_def
        current_value_summary_page_quote_lxml data_columns_def Let_def)
qed

text \<open>
  What independence gives for two calls in a row: the second call returns what it
  returns from the process the first call started in, and after both calls the default
  lists are what they were. With the same call twice, the call is idempotent.
\<close>

lemma stateless_after:
  assumes "stateless first_call" "stateless second_call"
  shows "fst (second_call (snd (first_call st))) = fst (second_call st)
       \<and> results_default (snd (second_call (snd (first_call st)))) = results_default st"
  using assms unfolding stateless_def by metis

text \<open>
  C9. Every public function of the file is independent of the process: with the site
  fixed, its result is the same from any two processes, so the same as after any earlier
  call and the same when it is called twice, and it leaves the default lists of the
  argument \<^verbatim>\<open>results\<close> as they are. The four helpers are called without that argument,
  which binds it to the default list the process holds; \<^verbatim>\<open>search_stock\<close> is the search
  operation of the specification, which has no process.
\<close>

theorem public_calls_stateless:
  "stateless (get_fundamentals check_data web stock output)
   \<and> stateless (get_estimates check_data web stock output)
   \<and> stateless (get_price exchanges check_data parse_price parse_timestamp web stock exchange
                  output)
   \<and> stateless (\<lambda>st. (search_stock found stock limit, st))
   \<and> stateless (check_site_availability web url)
   \<and> stateless (get_parser web function stock_name)
   \<and> stateless (default_call ''get_estimates_lxml'' (get_estimates_lxml mutations web stock))
   \<and> stateless (default_call ''get_fundamentals_lxml''
                  (get_fundamentals_lxml mutations web stock))
   \<and> stateless (default_call ''get_current_value_lxml''
                  (get_current_value_lxml mutations StockMarkets web stock exchange))
   \<and> stateless (default_call ''search_stock_lxml'' (search_stock_lxml_results web stock limit))"
proof -
  have 1: "stateless (get_fundamentals check_data web stock output)"
    unfolding stateless_def
    by (simp add: get_fundamentals_def make_soup_def requests_get_def Let_def
        split: option.splits sum.splits)
  have 2: "stateless (get_estimates check_data web stock output)"
    unfolding stateless_def
    by (simp add: get_estimates_def make_soup_def requests_get_def Let_def
        split: option.splits sum.splits)
  have 3: "stateless (get_price exchanges check_data parse_price parse_timestamp web stock
                        exchange output)"
    unfolding stateless_def
    by (simp add: get_price_def make_soup_def requests_get_def Let_def
        split: option.splits sum.splits)
  have 4: "stateless (\<lambda>st. (search_stock found stock limit, st))"
    unfolding stateless_def by simp
  have 5: "stateless (check_site_availability web url)"
    unfolding stateless_def using check_site_availability_result by blast
  have 6: "stateless (get_parser web function stock_name)"
    unfolding stateless_def using get_parser_result by blast
  have 7: "stateless (default_call ''get_estimates_lxml''
                        (get_estimates_lxml mutations web stock))"
    unfolding stateless_def default_call_def using get_estimates_lxml_result by blast
  have 8: "stateless (default_call ''get_fundamentals_lxml''
                        (get_fundamentals_lxml mutations web stock))"
    unfolding stateless_def default_call_def using get_fundamentals_lxml_result by blast
  have 9: "stateless (default_call ''get_current_value_lxml''
                        (get_current_value_lxml mutations StockMarkets web stock exchange))"
    unfolding stateless_def default_call_def using get_current_value_lxml_result by blast
  have 10: "stateless (default_call ''search_stock_lxml''
                         (search_stock_lxml_results web stock limit))"
    unfolding stateless_def default_call_def search_stock_lxml_results_def
    using search_stock_lxml_result by blast
  from 1 2 3 4 5 6 7 8 9 10 show ?thesis by blast
qed

end
